theory Spec2Isabelle
  imports Main
begin

section \<open>Data model\<close>

text \<open>
  The repository is a Go library that applies versioned SQL scripts to a PostgreSQL
  database. Two of its packages are modelled: \<^verbatim>\<open>driver/postgres\<close> (the backend adapter:
  \<^verbatim>\<open>Driver.Migrate\<close>, \<^verbatim>\<open>Driver.Version\<close>, \<^verbatim>\<open>Driver.Close\<close>) and \<^verbatim>\<open>migrate\<close> (the
  orchestrator: \<^verbatim>\<open>Up\<close>, \<^verbatim>\<open>Down\<close>, \<^verbatim>\<open>Redo\<close>, \<^verbatim>\<open>Migrate\<close>). Constants are named
  after the Go identifiers, prefixed with the package or receiver where two packages
  use the same name.
\<close>

subsection \<open>Errors, panics and results\<close>

text \<open>
  \<^verbatim>\<open>pq.Error\<close> of the library \<^verbatim>\<open>github.com/lib/pq\<close>: the four fields that
  \<^verbatim>\<open>Driver.Migrate\<close> reads. \<^verbatim>\<open>Code\<close> has the Go type \<^verbatim>\<open>pq.ErrorCode\<close>, a string type
  that \<^verbatim>\<open>%v\<close> prints as it is.
\<close>

record pq_error =
  Severity :: string
  Code :: string
  Message :: string
  Position :: string

text \<open>
  A Go \<^verbatim>\<open>error\<close> value, by its dynamic type: \<^verbatim>\<open>*pq.Error\<close>; the sentinel
  \<^verbatim>\<open>sql.ErrNoRows\<close>; or any other error, of which only the text matters
  (\<^verbatim>\<open>errors.New\<close>, \<^verbatim>\<open>driver.ErrBadConn\<close>, a network error, ...). The Go value
  \<^verbatim>\<open>nil\<close> is \<open>None\<close> of \<open>error option\<close>.
\<close>

datatype error = PqError pq_error | ErrNoRows | ErrorString string

text \<open>
  A Go function either returns or panics. The two run-time panics of the modelled code:
  a method call on a nil interface value, and a failed type assertion \<^verbatim>\<open>x.(T)\<close>.
\<close>

datatype panic = NilPointerDereference | InterfaceConversion

datatype 'a outcome = Returned 'a | Panicked panic

subsection \<open>Migration files\<close>

text \<open>
  Modelled from the spec: the package \<^verbatim>\<open>migrate/direction\<close> is not among the sources;
  the spec's data model gives a migration record the direction \<open>{Up, Down}\<close>.
\<close>

datatype direction = Up | Down

text \<open>
  \<^verbatim>\<open>file.File\<close> and \<^verbatim>\<open>file.MigrationFile\<close>, with the fields the sources use
  (\<^verbatim>\<open>postgres_test.go\<close> and \<^verbatim>\<open>migrate.Create\<close> build both as struct literals).
  \<^verbatim>\<open>UpFile\<close> and \<^verbatim>\<open>DownFile\<close> are pointers: \<open>None\<close> is \<^verbatim>\<open>nil\<close>.
\<close>

record File =
  Path :: string
  FileName :: string
  Version :: nat
  Name :: string
  Content :: string
  Direction :: direction

record MigrationFile =
  mf_Version :: nat
  UpFile :: "File option"
  DownFile :: "File option"

subsection \<open>The database and the other collaborators\<close>

text \<open>
  The calls the code makes on \<^verbatim>\<open>database/sql\<close>, in the order it makes them. The
  trace is how the theorems speak about ordering and about a transaction being released.
\<close>

datatype call =
    Begin
  | Exec string "nat list"
  | Commit
  | Rollback
  | QueryRow string
  | Close

text \<open>
  The world: the committed state of the database, of any type \<open>'s\<close>, and the trace.
\<close>

record 's world =
  committed :: 's
  calls :: "call list"

text \<open>
  Everything outside the three source files is a parameter: what the database answers
  to each call, and what the packages \<^verbatim>\<open>driver\<close> and \<^verbatim>\<open>file\<close> (not among the
  sources) return.
  \<^item> \<open>db_Begin s\<close>: the error of \<^verbatim>\<open>db.Begin()\<close> in the committed state \<open>s\<close>.
  \<^item> \<open>tx_Exec q args t\<close>: \<^verbatim>\<open>tx.Exec(q, args...)\<close> in the transaction's working state
    \<open>t\<close>: an error, or the new working state.
  \<^item> \<open>tx_Commit t\<close>, \<open>tx_Rollback t\<close>: the error of \<^verbatim>\<open>tx.Commit()\<close>, \<^verbatim>\<open>tx.Rollback()\<close>.
  \<^item> \<open>db_QueryRow q s\<close>: \<^verbatim>\<open>db.QueryRow(q).Scan(&version)\<close>: an error
    (\<open>ErrNoRows\<close> when the table is empty) or the scanned number.
  \<^item> \<open>db_Close s\<close>: the error of \<^verbatim>\<open>db.Close()\<close>.
  \<^item> \<open>file_ReadContent f\<close>: \<^verbatim>\<open>f.ReadContent()\<close>: an error, or the file with its content.
  \<^item> \<open>driver_New url s\<close>: \<^verbatim>\<open>driver.New(url)\<close>: \<open>Inl err\<close> is Go's \<^verbatim>\<open>(nil, err)\<close>;
    \<open>Inr s'\<close> is the postgres driver, initialised, with the database left in \<open>s'\<close>.
  \<^item> \<open>file_ReadMigrationFiles path ext\<close>: \<^verbatim>\<open>file.ReadMigrationFiles(path,
    file.FilenameRegex(ext))\<close>.

  The semantics of a transaction is the database's: statements run on a working copy
  of the committed state, a successful commit makes the copy the committed state, and
  nothing else changes the committed state.
\<close>

record 's env =
  db_Begin :: "'s \<Rightarrow> error option"
  tx_Exec :: "string \<Rightarrow> nat list \<Rightarrow> 's \<Rightarrow> error + 's"
  tx_Commit :: "'s \<Rightarrow> error option"
  tx_Rollback :: "'s \<Rightarrow> error option"
  db_QueryRow :: "string \<Rightarrow> 's \<Rightarrow> error + nat"
  db_Close :: "'s \<Rightarrow> error option"
  file_ReadContent :: "File \<Rightarrow> error + File"
  driver_New :: "string \<Rightarrow> 's \<Rightarrow> error + 's"
  file_ReadMigrationFiles :: "string \<Rightarrow> string \<Rightarrow> error + MigrationFile list"

definition note_call :: "call \<Rightarrow> 's world \<Rightarrow> 's world" where
  "note_call c w = w\<lparr>calls := calls w @ [c]\<rparr>"

section \<open>Go's strconv\<close>

definition newline :: char where
  "newline = CHR 0x0A"

text \<open>The value of a decimal digit; \<open>None\<close> for any other byte.\<close>

definition digit_val :: "char \<Rightarrow> int option" where
  "digit_val c =
     (let d = (of_char c :: int) - 48 in if 0 \<le> d \<and> d \<le> 9 then Some d else None)"

fun parse_digits :: "string \<Rightarrow> int \<Rightarrow> int option" where
  "parse_digits [] n = Some n"
| "parse_digits (c # cs) n =
     (case digit_val c of None \<Rightarrow> None | Some d \<Rightarrow> parse_digits cs (n * 10 + d))"

text \<open>
  \<^verbatim>\<open>strconv.Atoi\<close> on a 64-bit platform: an optional sign, then one or more decimal
  digits; \<open>None\<close> is a non-nil error (syntax, or a value outside \<^verbatim>\<open>int\<close>).
\<close>

definition Atoi :: "string \<Rightarrow> int option" where
  "Atoi s =
     (case s of
        [] \<Rightarrow> None
      | c # cs \<Rightarrow>
          (let neg = (c = CHR ''-'');
               ds = (if c = CHR ''-'' \<or> c = CHR ''+'' then cs else s)
           in if ds = [] then None
              else (case parse_digits ds 0 of
                      None \<Rightarrow> None
                    | Some n \<Rightarrow>
                        (let v = (if neg then - n else n)
                         in if - (2 ^ 63) \<le> v \<and> v < 2 ^ 63 then Some v else None))))"

function nat_digits :: "nat \<Rightarrow> string" where
  "nat_digits n =
     (if n < 10 then [''0123456789'' ! n]
      else nat_digits (n div 10) @ [''0123456789'' ! (n mod 10)])"
  by pat_completeness auto
termination
  by (relation "measure id") auto

text \<open>How \<^verbatim>\<open>%v\<close> prints an \<^verbatim>\<open>int\<close>.\<close>

definition Itoa :: "int \<Rightarrow> string" where
  "Itoa i = (if i < 0 then CHR ''-'' # nat_digits (nat (- i)) else nat_digits (nat i))"

section \<open>Package file: position of an error in a script\<close>

fun line_column_scan :: "string \<Rightarrow> nat \<Rightarrow> int \<times> int \<Rightarrow> int \<times> int" where
  "line_column_scan [] k (l, c) = (l, c)"
| "line_column_scan (x # xs) 0 (l, c) = (l, c)"
| "line_column_scan (x # xs) (Suc k) (l, c) =
     (if x = newline then line_column_scan xs k (l + 1, 1)
      else line_column_scan xs k (l, c + 1))"

text \<open>
  Modelled from the spec: \<^verbatim>\<open>file.LineColumnFromOffset\<close> is not among the sources. The
  spec: the adapter "converts that offset into a 1-based line number and column by
  counting characters". The offset is 0-based, as \<^verbatim>\<open>Driver.Migrate\<close> passes the
  backend's 1-based position less one. The characters before the offset are counted: a
  newline starts the next line at column 1. The spec gives no result for an offset
  outside the script; here a negative offset counts nothing and an offset past the end
  counts the whole script.
\<close>

definition LineColumnFromOffset :: "string \<Rightarrow> int \<Rightarrow> int \<times> int" where
  "LineColumnFromOffset data offset = line_column_scan data (nat offset) (1, 1)"

fun split_lines :: "string \<Rightarrow> string list" where
  "split_lines [] = [[]]"
| "split_lines (c # cs) =
     (if c = newline then [] # split_lines cs
      else (case split_lines cs of
              [] \<Rightarrow> [[c]]
            | l # ls \<Rightarrow> (c # l) # ls))"

fun join_lines :: "string list \<Rightarrow> string" where
  "join_lines [] = []"
| "join_lines [l] = l"
| "join_lines (l # ls) = l @ newline # join_lines ls"

text \<open>
  Modelled from the spec: \<^verbatim>\<open>file.LinesBeforeAndAfter\<close> is not among the sources. The
  spec: the adapter "extracts a context window of a fixed number of lines before and
  after the failing line (default 5 and 5) from the original script text". The window
  is the lines numbered \<open>line - before\<close> to \<open>line + after\<close> (1-based) that the script
  has, joined by newlines. The spec does not say what the last argument
  (\<^verbatim>\<open>true\<close> at the call) changes, so the model does not read it.
\<close>

definition LinesBeforeAndAfter :: "string \<Rightarrow> int \<Rightarrow> int \<Rightarrow> int \<Rightarrow> bool \<Rightarrow> string" where
  "LinesBeforeAndAfter data line before after lineNumbers =
     (let first = max 1 (line - before);
          last = line + after
      in join_lines (take (nat (last - first + 1)) (drop (nat (first - 1)) (split_lines data))))"

section \<open>Package postgres: the driver\<close>

definition tableName :: string where
  "tableName = ''schema_migrations''"

definition FilenameExtension :: string where
  "FilenameExtension = ''sql''"

definition insert_query :: string where
  "insert_query = ''INSERT INTO '' @ tableName @ '' (version) VALUES ($1)''"

definition delete_query :: string where
  "delete_query = ''DELETE FROM '' @ tableName @ '' WHERE version=$1''"

definition version_query :: string where
  "version_query = ''SELECT version FROM '' @ tableName @ '' ORDER BY version DESC LIMIT 1''"

text \<open>
  \<^verbatim>\<open>tx.Rollback()\<close> as the source calls it, a statement of its own: the call is made and
  its error is returned to nobody. The function gives the error with the world, and each
  caller below keeps the world only.
\<close>

definition tx_Rollback_call :: "'s env \<Rightarrow> 's \<Rightarrow> 's world \<Rightarrow> error option \<times> 's world" where
  "tx_Rollback_call env t w = (tx_Rollback env t, note_call Rollback w)"

text \<open>
  Lines 62 to 72 of \<^verbatim>\<open>postgres.go\<close>: the marker statement for the file's direction,
  run in the transaction's working state \<open>t\<close>.
\<close>

definition marker_query :: "direction \<Rightarrow> string" where
  "marker_query d = (case d of Up \<Rightarrow> insert_query | Down \<Rightarrow> delete_query)"

text \<open>The plain message of line 89, \<^verbatim>\<open>"%s %v: %s"\<close>.\<close>

definition plain_message :: "pq_error \<Rightarrow> string" where
  "plain_message pqErr = Severity pqErr @ '' '' @ Code pqErr @ '': '' @ Message pqErr"

text \<open>
  Lines 82 to 90: the error that replaces \<^verbatim>\<open>err\<close> once the script's error has been
  asserted to be a \<^verbatim>\<open>*pq.Error\<close>. Line 87's format is
  \<^verbatim>\<open>"%s %v: %s in line %v, column %v:\n\n%s"\<close>.
\<close>

definition decode_error :: "pq_error \<Rightarrow> string \<Rightarrow> error" where
  "decode_error pqErr content =
     (case Atoi (Position pqErr) of
        None \<Rightarrow> ErrorString (plain_message pqErr)
      | Some offset \<Rightarrow>
          if offset \<ge> 0 then
            (case LineColumnFromOffset content (offset - 1) of
               (lineNo, columnNo) \<Rightarrow>
                 (let errorPart = LinesBeforeAndAfter content lineNo 5 5 True
                  in ErrorString
                       (Severity pqErr @ '' '' @ Code pqErr @ '': '' @ Message pqErr
                        @ '' in line '' @ Itoa lineNo @ '', column '' @ Itoa columnNo
                        @ '':'' @ [newline, newline] @ errorPart)))
          else ErrorString (plain_message pqErr))"

text \<open>
  \<^verbatim>\<open>Driver.Migrate\<close> (lines 56 to 98). The local variable \<^verbatim>\<open>tx\<close> is the working state
  \<open>t\<close>, which starts as the committed state. Each \<^verbatim>\<open>return\<close> of the source is one
  result below, in the source's order:
  \<^enum> \<^verbatim>\<open>Begin\<close> fails: the error;
  \<^enum> the marker statement fails: rollback, the error;
  \<^enum> \<^verbatim>\<open>ReadContent\<close> fails: the error (the source makes no call on \<^verbatim>\<open>tx\<close> here);
  \<^enum> the script fails: the type assertion \<^verbatim>\<open>err.(*pq.Error)\<close> panics unless the error
    is a \<^verbatim>\<open>*pq.Error\<close>; otherwise the decoded error, after a rollback;
  \<^enum> the result of \<^verbatim>\<open>Commit\<close>.
\<close>

definition Driver_Migrate :: "'s env \<Rightarrow> File \<Rightarrow> 's world \<Rightarrow> error option outcome \<times> 's world" where
  "Driver_Migrate env f w =
     (case db_Begin env (committed w) of
        Some err \<Rightarrow> (Returned (Some err), note_call Begin w)
      | None \<Rightarrow>
          (let w1 = note_call (Exec (marker_query (Direction f)) [Version f]) (note_call Begin w)
           in case tx_Exec env (marker_query (Direction f)) [Version f] (committed w) of
                Inl err \<Rightarrow> (Returned (Some err), snd (tx_Rollback_call env (committed w) w1))
              | Inr t1 \<Rightarrow>
                  (case file_ReadContent env f of
                     Inl err \<Rightarrow> (Returned (Some err), w1)
                   | Inr f' \<Rightarrow>
                       (let w2 = note_call (Exec (Content f') []) w1
                        in case tx_Exec env (Content f') [] t1 of
                             Inl err \<Rightarrow>
                               (case err of
                                  PqError pqErr \<Rightarrow>
                                    (Returned (Some (decode_error pqErr (Content f'))),
                                     snd (tx_Rollback_call env t1 w2))
                                | ErrNoRows \<Rightarrow> (Panicked InterfaceConversion, w2)
                                | ErrorString m \<Rightarrow> (Panicked InterfaceConversion, w2))
                           | Inr t2 \<Rightarrow>
                               (case tx_Commit env t2 of
                                  Some err \<Rightarrow> (Returned (Some err), note_call Commit w2)
                                | None \<Rightarrow>
                                    (Returned None, (note_call Commit w2)\<lparr>committed := t2\<rparr>))))))"

text \<open>\<^verbatim>\<open>Driver.Version\<close> (lines 100 to 111) and \<^verbatim>\<open>Driver.Close\<close> (lines 38 to 43).\<close>

definition Driver_Version :: "'s env \<Rightarrow> 's world \<Rightarrow> (nat \<times> error option) \<times> 's world" where
  "Driver_Version env w =
     (case db_QueryRow env version_query (committed w) of
        Inl err \<Rightarrow>
          if err = ErrNoRows then ((0, None), note_call (QueryRow version_query) w)
          else ((0, Some err), note_call (QueryRow version_query) w)
      | Inr version \<Rightarrow> ((version, None), note_call (QueryRow version_query) w))"

definition Driver_Close :: "'s env \<Rightarrow> 's world \<Rightarrow> error option \<times> 's world" where
  "Driver_Close env w = (db_Close env (committed w), note_call Close w)"

section \<open>Package file: the sequencer\<close>

text \<open>
  The Up files and the Down files of a collection, in ascending order of version. A
  version with no file of the direction (a \<^verbatim>\<open>nil\<close> pointer) contributes nothing.
\<close>

definition up_files :: "MigrationFile list \<Rightarrow> File list" where
  "up_files mfs = List.map_filter UpFile (sort_key mf_Version mfs)"

definition down_files :: "MigrationFile list \<Rightarrow> File list" where
  "down_files mfs = List.map_filter DownFile (sort_key mf_Version mfs)"

text \<open>
  Modelled from the spec: \<^verbatim>\<open>MigrationFiles.ToLastFrom\<close> is not among the sources. The
  spec, \<open>ToLatest\<close>: "all Up records with version strictly greater than
  \<open>currentVersion\<close>, ascending. Always succeeds". The result is Go's pair
  \<^verbatim>\<open>(Files, error)\<close>.
\<close>

definition ToLastFrom :: "MigrationFile list \<Rightarrow> nat \<Rightarrow> File list \<times> error option" where
  "ToLastFrom mfs version = (filter (\<lambda>f. version < Version f) (up_files mfs), None)"

text \<open>
  Modelled from the spec: \<^verbatim>\<open>MigrationFiles.ToFirstFrom\<close> is not among the sources. The
  spec, \<open>ToZero\<close>: "all Down records with version less than or equal to
  \<open>currentVersion\<close>, in descending version order (most recent first). Always succeeds".
\<close>

definition ToFirstFrom :: "MigrationFile list \<Rightarrow> nat \<Rightarrow> File list \<times> error option" where
  "ToFirstFrom mfs version = (rev (filter (\<lambda>f. Version f \<le> version) (down_files mfs)), None)"

text \<open>
  Modelled from the spec: \<^verbatim>\<open>MigrationFiles.From\<close> is not among the sources. The spec,
  \<open>ByRelativeCount\<close>: for \<open>n > 0\<close> "the next \<open>n\<close> Up records with version greater than
  \<open>currentVersion\<close>, ascending; if fewer than \<open>n\<close> exist, return all available -- not
  an error"; for \<open>n < 0\<close> "the last \<open>|n|\<close> Down records with version less than or equal
  to \<open>currentVersion\<close>, descending; if fewer than \<open>|n|\<close> exist, return all available --
  not an error"; for \<open>n = 0\<close> the "empty sequence".
\<close>

definition From :: "MigrationFile list \<Rightarrow> nat \<Rightarrow> int \<Rightarrow> File list \<times> error option" where
  "From mfs version relativeN =
     (if relativeN > 0 then (take (nat relativeN) (fst (ToLastFrom mfs version)), None)
      else if relativeN < 0 then (take (nat (- relativeN)) (fst (ToFirstFrom mfs version)), None)
      else ([], None))"

section \<open>Package migrate: the orchestrator\<close>

text \<open>
  The one driver the sources register (\<^verbatim>\<open>postgres.init\<close>). A value of the interface
  type \<^verbatim>\<open>driver.Driver\<close> is \<open>driver option\<close>: \<open>None\<close> is the nil interface.
\<close>

datatype driver = PostgresDriver

text \<open>
  \<^verbatim>\<open>initDriverAndReadMigrationFilesAndGetVersion\<close> (lines 176 to 192): the four results
  of the Go function and the world. The two calls of \<^verbatim>\<open>d.Close()\<close> drop its error.
\<close>

definition initDriverAndReadMigrationFilesAndGetVersion ::
  "'s env \<Rightarrow> string \<Rightarrow> string \<Rightarrow> 's world
     \<Rightarrow> (driver option \<times> MigrationFile list option \<times> nat \<times> error option) \<times> 's world" where
  "initDriverAndReadMigrationFilesAndGetVersion env url migrationsPath w =
     (case driver_New env url (committed w) of
        Inl err \<Rightarrow> ((None, None, 0, Some err), w)
      | Inr s \<Rightarrow>
          (case file_ReadMigrationFiles env migrationsPath FilenameExtension of
             Inl err \<Rightarrow>
               ((None, None, 0, Some err), snd (Driver_Close env (w\<lparr>committed := s\<rparr>)))
           | Inr files \<Rightarrow>
               (case Driver_Version env (w\<lparr>committed := s\<rparr>) of
                  ((version, Some err), w1) \<Rightarrow>
                    ((None, None, 0, Some err), snd (Driver_Close env w1))
                | ((version, None), w1) \<Rightarrow>
                    ((Some PostgresDriver, Some files, version, None), w1))))"

text \<open>
  The loop the three operations share (lines 31 to 36, 53 to 58 and 99 to 104):
  \<^verbatim>\<open>d.Migrate(f)\<close> for each file in order, left at the first non-nil error. A panic of
  \<^verbatim>\<open>d.Migrate\<close> leaves it as well.
\<close>

fun migrate_files :: "'s env \<Rightarrow> File list \<Rightarrow> 's world \<Rightarrow> error option outcome \<times> 's world" where
  "migrate_files env [] w = (Returned None, w)"
| "migrate_files env (f # fs) w =
     (case Driver_Migrate env f w of
        (Returned None, w') \<Rightarrow> migrate_files env fs w'
      | (Returned (Some err), w') \<Rightarrow> (Returned (Some err), w')
      | (Panicked p, w') \<Rightarrow> (Panicked p, w'))"

text \<open>
  A deferred \<^verbatim>\<open>d.Close()\<close> on a driver that is not nil: it runs when the function
  returns and when it panics, and its error is dropped.
\<close>

definition deferred_Close :: "'s env \<Rightarrow> 'a outcome \<times> 's world \<Rightarrow> 'a outcome \<times> 's world" where
  "deferred_Close env r = (fst r, snd (Driver_Close env (snd r)))"

text \<open>
  \<^verbatim>\<open>Up\<close> (lines 20 to 40). Line 22, \<^verbatim>\<open>defer d.Close()\<close>, stands before the check of
  \<^verbatim>\<open>err\<close>: Go evaluates the method value \<^verbatim>\<open>d.Close\<close> when the defer statement runs,
  which panics on a nil interface. \<^verbatim>\<open>files\<close> is a pointer; a method call through a
  nil one panics too.
\<close>

definition migrate_Up :: "'s env \<Rightarrow> string \<Rightarrow> string \<Rightarrow> 's world \<Rightarrow> error option outcome \<times> 's world" where
  "migrate_Up env url migrationsPath w =
     (case initDriverAndReadMigrationFilesAndGetVersion env url migrationsPath w of
        ((d, files, version, err), w0) \<Rightarrow>
          (case d of
             None \<Rightarrow> (Panicked NilPointerDereference, w0)
           | Some _ \<Rightarrow>
               deferred_Close env
                 (case err of
                    Some e \<Rightarrow> (Returned (Some e), w0)
                  | None \<Rightarrow>
                      (case files of
                         None \<Rightarrow> (Panicked NilPointerDereference, w0)
                       | Some mfs \<Rightarrow>
                           (let applyMigrationFiles = fst (ToLastFrom mfs version)
                            in if length applyMigrationFiles > 0
                               then migrate_files env applyMigrationFiles w0
                               else (Returned None, w0))))))"

text \<open>\<^verbatim>\<open>Down\<close> (lines 43 to 61): no deferred close, and \<^verbatim>\<open>err\<close> is checked first.\<close>

definition migrate_Down :: "'s env \<Rightarrow> string \<Rightarrow> string \<Rightarrow> 's world \<Rightarrow> error option outcome \<times> 's world" where
  "migrate_Down env url migrationsPath w =
     (case initDriverAndReadMigrationFilesAndGetVersion env url migrationsPath w of
        ((d, files, version, err), w0) \<Rightarrow>
          (case err of
             Some e \<Rightarrow> (Returned (Some e), w0)
           | None \<Rightarrow>
               (case files of
                  None \<Rightarrow> (Panicked NilPointerDereference, w0)
                | Some mfs \<Rightarrow>
                    (let applyMigrationFiles = fst (ToFirstFrom mfs version)
                     in if length applyMigrationFiles > 0
                        then (case d of
                                None \<Rightarrow> (Panicked NilPointerDereference, w0)
                              | Some _ \<Rightarrow> migrate_files env applyMigrationFiles w0)
                        else (Returned None, w0)))))"

text \<open>\<^verbatim>\<open>Migrate\<close> (lines 85 to 108), with the deferred close of line 87.\<close>

definition migrate_Migrate ::
  "'s env \<Rightarrow> string \<Rightarrow> string \<Rightarrow> int \<Rightarrow> 's world \<Rightarrow> error option outcome \<times> 's world" where
  "migrate_Migrate env url migrationsPath relativeN w =
     (case initDriverAndReadMigrationFilesAndGetVersion env url migrationsPath w of
        ((d, files, version, err), w0) \<Rightarrow>
          (case d of
             None \<Rightarrow> (Panicked NilPointerDereference, w0)
           | Some _ \<Rightarrow>
               deferred_Close env
                 (case err of
                    Some e \<Rightarrow> (Returned (Some e), w0)
                  | None \<Rightarrow>
                      (case files of
                         None \<Rightarrow> (Panicked NilPointerDereference, w0)
                       | Some mfs \<Rightarrow>
                           (case From mfs version relativeN of
                              (applyMigrationFiles, Some e) \<Rightarrow> (Returned (Some e), w0)
                            | (applyMigrationFiles, None) \<Rightarrow>
                                if length applyMigrationFiles > 0 \<and> relativeN \<noteq> 0
                                then migrate_files env applyMigrationFiles w0
                                else (Returned None, w0))))))"

text \<open>\<^verbatim>\<open>Redo\<close> (lines 64 to 72).\<close>

definition migrate_Redo :: "'s env \<Rightarrow> string \<Rightarrow> string \<Rightarrow> 's world \<Rightarrow> error option outcome \<times> 's world" where
  "migrate_Redo env url migrationsPath w =
     (case migrate_Migrate env url migrationsPath (- 1) w of
        (Returned None, w1) \<Rightarrow> migrate_Migrate env url migrationsPath 1 w1
      | (Returned (Some err), w1) \<Rightarrow> (Returned (Some err), w1)
      | (Panicked p, w1) \<Rightarrow> (Panicked p, w1))"

section \<open>A test database\<close>

text \<open>
  The concrete inputs of the examples below follow \<^verbatim>\<open>postgres_test.go\<close>: a database
  with the version table and the tables the scripts create, and the test's three files.
\<close>

record pgdb =
  versions :: "nat list"
  tables :: "string list"

definition create_yolo :: string where
  "create_yolo = ''CREATE TABLE yolo (id serial not null primary key);''"

definition drop_yolo :: string where
  "drop_yolo = ''DROP TABLE yolo;''"

definition create_error :: string where
  "create_error = ''CREATE TABLE error ('' @ [newline] @ ''id THIS WILL CAUSE AN ERROR'' @ [newline] @ '')''"

definition syntax_error :: pq_error where
  "syntax_error = \<lparr>Severity = ''ERROR'', Code = ''42601'',
     Message = ''syntax error at or near WILL'', Position = ''30''\<rparr>"

definition unique_violation :: pq_error where
  "unique_violation = \<lparr>Severity = ''ERROR'', Code = ''23505'',
     Message = ''duplicate key value violates unique constraint'', Position = []\<rparr>"

definition undefined_table :: pq_error where
  "undefined_table = \<lparr>Severity = ''ERROR'', Code = ''42P01'',
     Message = ''table yolo does not exist'', Position = []\<rparr>"

text \<open>
  What the test database answers to a statement: the two marker statements change the
  version table (the version is its primary key), the two scripts of the test create
  and drop the table \<open>yolo\<close>, and any other text is a syntax error at position 30.
\<close>

definition pg_Exec :: "string \<Rightarrow> nat list \<Rightarrow> pgdb \<Rightarrow> error + pgdb" where
  "pg_Exec q args s =
     (if q = insert_query then
        (case args of
           [v] \<Rightarrow> if v \<in> set (versions s) then Inl (PqError unique_violation)
                  else Inr (s\<lparr>versions := v # versions s\<rparr>)
         | _ \<Rightarrow> Inl (ErrorString ''sql: wrong number of arguments''))
      else if q = delete_query then
        (case args of
           [v] \<Rightarrow> Inr (s\<lparr>versions := removeAll v (versions s)\<rparr>)
         | _ \<Rightarrow> Inl (ErrorString ''sql: wrong number of arguments''))
      else if q = create_yolo then Inr (s\<lparr>tables := ''yolo'' # tables s\<rparr>)
      else if q = drop_yolo then
        (if ''yolo'' \<in> set (tables s) then Inr (s\<lparr>tables := removeAll ''yolo'' (tables s)\<rparr>)
         else Inl (PqError undefined_table))
      else Inl (PqError syntax_error))"

definition pg_QueryRow :: "string \<Rightarrow> pgdb \<Rightarrow> error + nat" where
  "pg_QueryRow q s = (if versions s = [] then Inl ErrNoRows else Inr (fold max (versions s) 0))"

definition file1_up :: File where
  "file1_up = \<lparr>Path = ''/foobar'', FileName = ''001_foobar.up.sql'', Version = 1,
     Name = ''foobar'', Content = create_yolo, Direction = Up\<rparr>"

definition file1_down :: File where
  "file1_down = \<lparr>Path = ''/foobar'', FileName = ''001_foobar.down.sql'', Version = 1,
     Name = ''foobar'', Content = drop_yolo, Direction = Down\<rparr>"

definition file2_up :: File where
  "file2_up = \<lparr>Path = ''/foobar'', FileName = ''002_foobar.up.sql'', Version = 2,
     Name = ''foobar'', Content = create_error, Direction = Up\<rparr>"

definition test_files :: "MigrationFile list" where
  "test_files =
     [\<lparr>mf_Version = 1, UpFile = Some file1_up, DownFile = Some file1_down\<rparr>,
      \<lparr>mf_Version = 2, UpFile = Some file2_up, DownFile = None\<rparr>]"

text \<open>
  The test environment: every call succeeds unless the statement itself fails, the
  files have their content, and the migrations directory holds the test's files.
\<close>

definition pg :: "pgdb env" where
  "pg = \<lparr>db_Begin = (\<lambda>s. None),
         tx_Exec = pg_Exec,
         tx_Commit = (\<lambda>t. None),
         tx_Rollback = (\<lambda>t. None),
         db_QueryRow = pg_QueryRow,
         db_Close = (\<lambda>s. None),
         file_ReadContent = (\<lambda>f. Inr f),
         driver_New = (\<lambda>url s. Inr s),
         file_ReadMigrationFiles = (\<lambda>path ext. Inr test_files)\<rparr>"

definition empty_db :: "pgdb world" where
  "empty_db = \<lparr>committed = \<lparr>versions = [], tables = []\<rparr>, calls = []\<rparr>"

text \<open>The test database after the first file has been applied.\<close>

definition db_at_1 :: "pgdb world" where
  "db_at_1 = \<lparr>committed = \<lparr>versions = [1], tables = [''yolo'']\<rparr>, calls = []\<rparr>"

text \<open>
  Variants of the test environment, each with one collaborator failing: the connection
  breaks while the script of the first file runs (\<^verbatim>\<open>database/sql\<close> then returns
  \<^verbatim>\<open>driver.ErrBadConn\<close>, which is no \<^verbatim>\<open>*pq.Error\<close>), or while it drops the table; every
  rollback fails; the files cannot be read from disk.
\<close>

definition bad_connection :: error where
  "bad_connection = ErrorString ''driver: bad connection''"

definition pg_bad_conn :: "pgdb env" where
  "pg_bad_conn =
     pg\<lparr>tx_Exec := (\<lambda>q args s. if q = create_yolo then Inl bad_connection else pg_Exec q args s)\<rparr>"

definition pg_bad_conn_down :: "pgdb env" where
  "pg_bad_conn_down =
     pg\<lparr>tx_Exec := (\<lambda>q args s. if q = drop_yolo then Inl bad_connection else pg_Exec q args s)\<rparr>"

definition pg_rollback_fails :: "pgdb env" where
  "pg_rollback_fails = pg\<lparr>tx_Rollback := (\<lambda>t. Some bad_connection)\<rparr>"

definition no_such_file :: error where
  "no_such_file = ErrorString ''open /foobar/001_foobar.up.sql: no such file or directory''"

definition pg_unreadable :: "pgdb env" where
  "pg_unreadable = pg\<lparr>file_ReadContent := (\<lambda>f. Inl no_such_file)\<rparr>"

text \<open>Whether an error value has the dynamic type \<^verbatim>\<open>*pq.Error\<close>.\<close>

definition is_pq_error :: "error \<Rightarrow> bool" where
  "is_pq_error err = (case err of PqError pqErr \<Rightarrow> True | ErrNoRows \<Rightarrow> False | ErrorString m \<Rightarrow> False)"

text \<open>
  The test database reporting the syntax error of the third file at position 0, and at
  position 1000, far past the end of the script.
\<close>

definition pg_position_0 :: "pgdb env" where
  "pg_position_0 =
     pg\<lparr>tx_Exec := (\<lambda>q args s. if q = create_error
                                 then Inl (PqError (syntax_error\<lparr>Position := ''0''\<rparr>))
                                 else pg_Exec q args s)\<rparr>"

definition pg_position_1000 :: "pgdb env" where
  "pg_position_1000 =
     pg\<lparr>tx_Exec := (\<lambda>q args s. if q = create_error
                                 then Inl (PqError (syntax_error\<lparr>Position := ''1000''\<rparr>))
                                 else pg_Exec q args s)\<rparr>"

text \<open>The test environment with a URL whose scheme has no registered driver.\<close>

definition driver_not_found :: error where
  "driver_not_found = ErrorString ''Driver mysql not found.''"

definition pg_no_driver :: "pgdb env" where
  "pg_no_driver = pg\<lparr>driver_New := (\<lambda>url s. Inl driver_not_found)\<rparr>"

text \<open>The test environment with a database that refuses every new transaction.\<close>

definition pg_begin_fails :: "pgdb env" where
  "pg_begin_fails = pg\<lparr>db_Begin := (\<lambda>s. Some bad_connection)\<rparr>"

text \<open>
  The test environment in which the connection breaks while the script of the second
  file runs: the first file is applied, the second fails with an error that is no
  \<^verbatim>\<open>*pq.Error\<close>.
\<close>

definition pg_bad_conn_second :: "pgdb env" where
  "pg_bad_conn_second =
     pg\<lparr>tx_Exec := (\<lambda>q args s. if q = create_error then Inl bad_connection else pg_Exec q args s)\<rparr>"

section \<open>The driver: one migration in one transaction\<close>

lemmas pg_fixture =
  pg_def pg_Exec_def pg_QueryRow_def marker_query_def insert_query_def delete_query_def
  version_query_def tableName_def create_yolo_def drop_yolo_def create_error_def
  file1_up_def file1_down_def file2_up_def empty_db_def db_at_1_def newline_def

lemma calls_note_call [simp]: "calls (note_call c w) = calls w @ [c]"
  by (simp add: note_call_def)

lemma committed_note_call [simp]: "committed (note_call c w) = committed w"
  by (simp add: note_call_def)

lemma Driver_Version_result:
  "fst (Driver_Version env w) =
     (case db_QueryRow env version_query (committed w) of
        Inl err \<Rightarrow> if err = ErrNoRows then (0, None) else (0, Some err)
      | Inr version \<Rightarrow> (version, None))"
  by (simp add: Driver_Version_def split: sum.splits)

lemma Driver_Migrate_begin_fails:
  assumes "db_Begin env (committed w) = Some e"
  shows "Driver_Migrate env f w = (Returned (Some e), w\<lparr>calls := calls w @ [Begin]\<rparr>)"
  using assms by (simp add: Driver_Migrate_def note_call_def)

lemma Driver_Migrate_marker_fails:
  assumes "db_Begin env (committed w) = None"
    and "tx_Exec env (marker_query (Direction f)) [Version f] (committed w) = Inl e"
  shows "Driver_Migrate env f w =
    (Returned (Some e),
     w\<lparr>calls := calls w @ [Begin, Exec (marker_query (Direction f)) [Version f], Rollback]\<rparr>)"
  using assms by (simp add: Driver_Migrate_def tx_Rollback_call_def note_call_def)

lemma Driver_Migrate_read_fails:
  assumes "db_Begin env (committed w) = None"
    and "tx_Exec env (marker_query (Direction f)) [Version f] (committed w) = Inr t1"
    and "file_ReadContent env f = Inl e"
  shows "Driver_Migrate env f w =
    (Returned (Some e),
     w\<lparr>calls := calls w @ [Begin, Exec (marker_query (Direction f)) [Version f]]\<rparr>)"
  using assms by (simp add: Driver_Migrate_def note_call_def)

lemma Driver_Migrate_script_fails_pq:
  assumes "db_Begin env (committed w) = None"
    and "tx_Exec env (marker_query (Direction f)) [Version f] (committed w) = Inr t1"
    and "file_ReadContent env f = Inr f'"
    and "tx_Exec env (Content f') [] t1 = Inl (PqError pqErr)"
  shows "Driver_Migrate env f w =
    (Returned (Some (decode_error pqErr (Content f'))),
     w\<lparr>calls := calls w @ [Begin, Exec (marker_query (Direction f)) [Version f],
                            Exec (Content f') [], Rollback]\<rparr>)"
  using assms by (simp add: Driver_Migrate_def tx_Rollback_call_def note_call_def)

lemma Driver_Migrate_script_fails_other:
  assumes "db_Begin env (committed w) = None"
    and "tx_Exec env (marker_query (Direction f)) [Version f] (committed w) = Inr t1"
    and "file_ReadContent env f = Inr f'"
    and "tx_Exec env (Content f') [] t1 = Inl err"
    and "\<not> is_pq_error err"
  shows "Driver_Migrate env f w =
    (Panicked InterfaceConversion,
     w\<lparr>calls := calls w @ [Begin, Exec (marker_query (Direction f)) [Version f],
                            Exec (Content f') []]\<rparr>)"
  using assms
  by (cases err) (simp_all add: Driver_Migrate_def note_call_def is_pq_error_def)

lemma Driver_Migrate_commit_fails:
  assumes "db_Begin env (committed w) = None"
    and "tx_Exec env (marker_query (Direction f)) [Version f] (committed w) = Inr t1"
    and "file_ReadContent env f = Inr f'"
    and "tx_Exec env (Content f') [] t1 = Inr t2"
    and "tx_Commit env t2 = Some e"
  shows "Driver_Migrate env f w =
    (Returned (Some e),
     w\<lparr>calls := calls w @ [Begin, Exec (marker_query (Direction f)) [Version f],
                            Exec (Content f') [], Commit]\<rparr>)"
  using assms by (simp add: Driver_Migrate_def note_call_def)

lemma Driver_Migrate_succeeds:
  assumes "db_Begin env (committed w) = None"
    and "tx_Exec env (marker_query (Direction f)) [Version f] (committed w) = Inr t1"
    and "file_ReadContent env f = Inr f'"
    and "tx_Exec env (Content f') [] t1 = Inr t2"
    and "tx_Commit env t2 = None"
  shows "Driver_Migrate env f w =
    (Returned None,
     w\<lparr>committed := t2,
       calls := calls w @ [Begin, Exec (marker_query (Direction f)) [Version f],
                           Exec (Content f') [], Commit]\<rparr>)"
  using assms by (simp add: Driver_Migrate_def note_call_def)

text \<open>
  The committed database changes only when \<^verbatim>\<open>Driver.Migrate\<close> returns nil: on every
  error return and on the panic it is the one before the call.
\<close>

lemma Driver_Migrate_committed_only_changes_on_success:
  assumes "fst (Driver_Migrate env f w) \<noteq> Returned None"
  shows "committed (snd (Driver_Migrate env f w)) = committed w"
  using assms
  by (auto simp add: Driver_Migrate_def tx_Rollback_call_def Let_def
      split: option.splits sum.splits error.splits)

text \<open>
  The failure paths that roll back (lines 64, 69 and 92). When the marker statement
  fails, or the script fails with an error that is a \<^verbatim>\<open>*pq.Error\<close>, \<^verbatim>\<open>Driver.Migrate\<close>
  returns an error (the marker statement's own, or the decoded one), the transaction's
  last call is its one \<^verbatim>\<open>Rollback\<close> and it is never committed, the committed database
  is the one before the call (marker and schema changes are both gone), and
  \<^verbatim>\<open>Driver.Version\<close> answers afterwards what it answered before.
\<close>

theorem Driver_Migrate_failure_rolls_back:
  assumes "db_Begin env (committed w) = None"
    and "tx_Exec env (marker_query (Direction f)) [Version f] (committed w) = Inl e
         \<or> (tx_Exec env (marker_query (Direction f)) [Version f] (committed w) = Inr t1
            \<and> file_ReadContent env f = Inr f'
            \<and> tx_Exec env (Content f') [] t1 = Inl (PqError pqErr))"
  shows "fst (Driver_Migrate env f w) =
           Returned (Some (case tx_Exec env (marker_query (Direction f)) [Version f] (committed w) of
                             Inl err \<Rightarrow> err
                           | Inr t \<Rightarrow> decode_error pqErr (Content f')))
       \<and> (\<exists>pre. calls (snd (Driver_Migrate env f w)) = calls w @ Begin # pre @ [Rollback]
                \<and> Commit \<notin> set pre \<and> Rollback \<notin> set pre \<and> Begin \<notin> set pre)
       \<and> committed (snd (Driver_Migrate env f w)) = committed w
       \<and> fst (Driver_Version env (snd (Driver_Migrate env f w))) = fst (Driver_Version env w)"
proof -
  from assms(2) show ?thesis
  proof
    assume m: "tx_Exec env (marker_query (Direction f)) [Version f] (committed w) = Inl e"
    have r: "Driver_Migrate env f w =
      (Returned (Some e),
       w\<lparr>calls := calls w @ [Begin, Exec (marker_query (Direction f)) [Version f], Rollback]\<rparr>)"
      by (rule Driver_Migrate_marker_fails [OF assms(1) m])
    have "\<exists>pre. calls w @ [Begin, Exec (marker_query (Direction f)) [Version f], Rollback]
                 = calls w @ Begin # pre @ [Rollback]
               \<and> Commit \<notin> set pre \<and> Rollback \<notin> set pre \<and> Begin \<notin> set pre"
      by (rule exI [of _ "[Exec (marker_query (Direction f)) [Version f]]"]) simp
    then show ?thesis
      by (simp add: r m Driver_Version_result)
  next
    assume s: "tx_Exec env (marker_query (Direction f)) [Version f] (committed w) = Inr t1
            \<and> file_ReadContent env f = Inr f'
            \<and> tx_Exec env (Content f') [] t1 = Inl (PqError pqErr)"
    have r: "Driver_Migrate env f w =
      (Returned (Some (decode_error pqErr (Content f'))),
       w\<lparr>calls := calls w @ [Begin, Exec (marker_query (Direction f)) [Version f],
                            Exec (Content f') [], Rollback]\<rparr>)"
      using s by (intro Driver_Migrate_script_fails_pq [OF assms(1)]) blast+
    have "\<exists>pre. calls w @ [Begin, Exec (marker_query (Direction f)) [Version f],
                            Exec (Content f') [], Rollback]
                 = calls w @ Begin # pre @ [Rollback]
               \<and> Commit \<notin> set pre \<and> Rollback \<notin> set pre \<and> Begin \<notin> set pre"
      by (rule exI [of _ "[Exec (marker_query (Direction f)) [Version f], Exec (Content f') []]"]) simp
    then show ?thesis
      using s by (simp add: r Driver_Version_result)
  qed
qed

text \<open>
  An example of each: on the test database at version 1, applying the first Up file again
  fails at the marker statement (the version is the table's primary key); on the empty
  database, the test's third file fails in its script. Both leave the committed
  database and the current version as they were.
\<close>

theorem Driver_Migrate_failure_rolls_back_witness:
  "(tx_Exec pg (marker_query (Direction file1_up)) [Version file1_up] (committed db_at_1)
       = Inl (PqError unique_violation)
    \<and> fst (Driver_Migrate pg file1_up db_at_1) = Returned (Some (PqError unique_violation))
    \<and> committed (snd (Driver_Migrate pg file1_up db_at_1)) = committed db_at_1
    \<and> fst (Driver_Version pg (snd (Driver_Migrate pg file1_up db_at_1))) = (1, None))
 \<and> (tx_Exec pg (Content file2_up) [] \<lparr>versions = [2], tables = []\<rparr> = Inl (PqError syntax_error)
    \<and> fst (Driver_Migrate pg file2_up empty_db)
        = Returned (Some (decode_error syntax_error (Content file2_up)))
    \<and> committed (snd (Driver_Migrate pg file2_up empty_db)) = committed empty_db
    \<and> fst (Driver_Version pg (snd (Driver_Migrate pg file2_up empty_db))) = (0, None))"
proof -
  have b1: "db_Begin pg (committed db_at_1) = None"
    by (simp add: pg_fixture)
  have m1: "tx_Exec pg (marker_query (Direction file1_up)) [Version file1_up] (committed db_at_1)
              = Inl (PqError unique_violation)"
    by (simp add: pg_fixture)
  have v1: "fst (Driver_Version pg db_at_1) = (1, None)"
    by (simp add: Driver_Version_result pg_fixture)
  have b2: "db_Begin pg (committed empty_db) = None"
    by (simp add: pg_fixture)
  have m2: "tx_Exec pg (marker_query (Direction file2_up)) [Version file2_up] (committed empty_db)
              = Inr \<lparr>versions = [2], tables = []\<rparr>"
    by (simp add: pg_fixture)
  have c2: "file_ReadContent pg file2_up = Inr file2_up"
    by (simp add: pg_fixture)
  have s2: "tx_Exec pg (Content file2_up) [] \<lparr>versions = [2], tables = []\<rparr>
              = Inl (PqError syntax_error)"
    by (simp add: pg_fixture)
  have v2: "fst (Driver_Version pg empty_db) = (0, None)"
    by (simp add: Driver_Version_result pg_fixture)
  note A = Driver_Migrate_failure_rolls_back [OF b1 disjI1, OF m1]
  note B = Driver_Migrate_failure_rolls_back [OF b2 disjI2, OF conjI, OF m2 conjI, OF c2 s2]
  show ?thesis
    using A B m1 m2 s2 v1 v2 by simp
qed

text \<open>
  C1, the code at the failing input. The connection breaks while the script of the
  first file runs, so \<^verbatim>\<open>tx.Exec\<close> returns an error that is no \<^verbatim>\<open>*pq.Error\<close>: a script
  execution that fails inside \<^verbatim>\<open>Driver.Migrate\<close>. The type assertion of line 81 panics
  before line 92 is reached: no error is returned, \<^verbatim>\<open>Rollback\<close> is never called and the
  transaction stays open, where the sibling failure paths of lines 64, 69 and 92 roll
  back and return. (The committed database and the current version are unchanged here
  too: nothing was committed.)
\<close>

theorem Driver_Migrate_non_pq_failure_skips_rollback:
  "tx_Exec pg_bad_conn (Content file1_up) [] \<lparr>versions = [1], tables = []\<rparr> = Inl bad_connection
   \<and> Driver_Migrate pg_bad_conn file1_up empty_db =
       (Panicked InterfaceConversion,
        \<lparr>committed = \<lparr>versions = [], tables = []\<rparr>,
         calls = [Begin, Exec insert_query [1], Exec create_yolo []]\<rparr>)
   \<and> Rollback \<notin> set (calls (snd (Driver_Migrate pg_bad_conn file1_up empty_db)))
   \<and> Commit \<notin> set (calls (snd (Driver_Migrate pg_bad_conn file1_up empty_db)))
   \<and> fst (Driver_Version pg_bad_conn (snd (Driver_Migrate pg_bad_conn file1_up empty_db)))
       = fst (Driver_Version pg_bad_conn empty_db)"
  by (simp add: Driver_Migrate_def Driver_Version_result pg_bad_conn_def bad_connection_def
      note_call_def pg_fixture)

text \<open>
  C2. Once \<^verbatim>\<open>Begin\<close> has succeeded, the first statement of the transaction is the
  marker statement with the file's version: the \<^verbatim>\<open>INSERT\<close> for direction \<open>Up\<close>, the
  \<^verbatim>\<open>DELETE\<close> for direction \<open>Down\<close>. The script, when it is run at all, is the next
  call, in the same transaction: no second \<^verbatim>\<open>Begin\<close> follows, and what follows the
  script is the transaction's \<^verbatim>\<open>Commit\<close> or \<^verbatim>\<open>Rollback\<close>. The script runs on the
  working state the marker statement left, and a successful commit publishes the state
  the script left.
\<close>

theorem Driver_Migrate_marker_first:
  assumes "db_Begin env (committed w) = None"
  shows "(\<exists>rest. calls (snd (Driver_Migrate env f w))
                   = calls w @ Begin # Exec (marker_query (Direction f)) [Version f] # rest
                \<and> Begin \<notin> set rest
                \<and> (rest = [] \<or> rest = [Rollback]
                    \<or> (\<exists>f'. file_ReadContent env f = Inr f'
                             \<and> (rest = [Exec (Content f') []]
                                \<or> rest = [Exec (Content f') [], Rollback]
                                \<or> rest = [Exec (Content f') [], Commit]))))
       \<and> marker_query Up = ''INSERT INTO schema_migrations (version) VALUES ($1)''
       \<and> marker_query Down = ''DELETE FROM schema_migrations WHERE version=$1''
       \<and> (tx_Exec env (marker_query (Direction f)) [Version f] (committed w) = Inr t1
            \<and> file_ReadContent env f = Inr f'
            \<and> tx_Exec env (Content f') [] t1 = Inr t2
            \<and> tx_Commit env t2 = None
          \<longrightarrow> Driver_Migrate env f w =
                (Returned None,
                 w\<lparr>committed := t2,
                   calls := calls w @ [Begin, Exec (marker_query (Direction f)) [Version f],
                                       Exec (Content f') [], Commit]\<rparr>))"
proof -
  let ?m = "Exec (marker_query (Direction f)) [Version f]"
  let ?P = "\<lambda>rest. calls (snd (Driver_Migrate env f w)) = calls w @ Begin # ?m # rest
                \<and> Begin \<notin> set rest
                \<and> (rest = [] \<or> rest = [Rollback]
                    \<or> (\<exists>f'. file_ReadContent env f = Inr f'
                             \<and> (rest = [Exec (Content f') []]
                                \<or> rest = [Exec (Content f') [], Rollback]
                                \<or> rest = [Exec (Content f') [], Commit])))"
  have trace: "\<exists>rest. ?P rest"
  proof (cases "tx_Exec env (marker_query (Direction f)) [Version f] (committed w)")
    case (Inl e)
    have "?P [Rollback]"
      by (simp add: Driver_Migrate_marker_fails [OF assms Inl])
    then show ?thesis ..
  next
    case marker: (Inr t)
    show ?thesis
    proof (cases "file_ReadContent env f")
      case (Inl e)
      have "?P []"
        by (simp add: Driver_Migrate_read_fails [OF assms marker Inl])
      then show ?thesis ..
    next
      case content: (Inr g)
      show ?thesis
      proof (cases "tx_Exec env (Content g) [] t")
        case script: (Inl err)
        show ?thesis
        proof (cases "is_pq_error err")
          case True
          then obtain p where p: "err = PqError p"
            by (cases err) (simp_all add: is_pq_error_def)
          have "?P [Exec (Content g) [], Rollback]"
            using content
            by (simp add: Driver_Migrate_script_fails_pq [OF assms marker content script [unfolded p]])
          then show ?thesis ..
        next
          case False
          have "?P [Exec (Content g) []]"
            using content
            by (simp add: Driver_Migrate_script_fails_other [OF assms marker content script False])
          then show ?thesis ..
        qed
      next
        case script: (Inr u)
        show ?thesis
        proof (cases "tx_Commit env u")
          case None
          have "?P [Exec (Content g) [], Commit]"
            using content
            by (simp add: Driver_Migrate_succeeds [OF assms marker content script None])
          then show ?thesis ..
        next
          case (Some e)
          have "?P [Exec (Content g) [], Commit]"
            using content
            by (simp add: Driver_Migrate_commit_fails [OF assms marker content script Some])
          then show ?thesis ..
        qed
      qed
    qed
  qed
  have texts: "marker_query Up = ''INSERT INTO schema_migrations (version) VALUES ($1)''"
    "marker_query Down = ''DELETE FROM schema_migrations WHERE version=$1''"
    by (simp_all add: marker_query_def insert_query_def delete_query_def tableName_def)
  have flow: "tx_Exec env (marker_query (Direction f)) [Version f] (committed w) = Inr t1
            \<and> file_ReadContent env f = Inr f'
            \<and> tx_Exec env (Content f') [] t1 = Inr t2
            \<and> tx_Commit env t2 = None
          \<longrightarrow> Driver_Migrate env f w =
                (Returned None,
                 w\<lparr>committed := t2,
                   calls := calls w @ [Begin, ?m, Exec (Content f') [], Commit]\<rparr>)"
    using Driver_Migrate_succeeds [OF assms] by blast
  from trace texts flow show ?thesis
    by blast
qed

text \<open>
  C2, witness: the first Up file on the empty test database, and the first Down file on
  the database at version 1.
\<close>

theorem Driver_Migrate_marker_first_witness:
  "db_Begin pg (committed empty_db) = None
   \<and> Driver_Migrate pg file1_up empty_db =
       (Returned None,
        \<lparr>committed = \<lparr>versions = [1], tables = [''yolo'']\<rparr>,
         calls = [Begin, Exec ''INSERT INTO schema_migrations (version) VALUES ($1)'' [1],
                  Exec create_yolo [], Commit]\<rparr>)
   \<and> db_Begin pg (committed db_at_1) = None
   \<and> Driver_Migrate pg file1_down db_at_1 =
       (Returned None,
        \<lparr>committed = \<lparr>versions = [], tables = []\<rparr>,
         calls = [Begin, Exec ''DELETE FROM schema_migrations WHERE version=$1'' [1],
                  Exec drop_yolo [], Commit]\<rparr>)"
proof -
  have b1: "db_Begin pg (committed empty_db) = None"
    by (simp add: pg_fixture)
  have u: "tx_Exec pg (marker_query (Direction file1_up)) [Version file1_up] (committed empty_db)
             = Inr \<lparr>versions = [1], tables = []\<rparr>
           \<and> file_ReadContent pg file1_up = Inr file1_up
           \<and> tx_Exec pg (Content file1_up) [] \<lparr>versions = [1], tables = []\<rparr>
               = Inr \<lparr>versions = [1], tables = [''yolo'']\<rparr>
           \<and> tx_Commit pg \<lparr>versions = [1], tables = [''yolo'']\<rparr> = None"
    by (simp add: pg_fixture)
  have b2: "db_Begin pg (committed db_at_1) = None"
    by (simp add: pg_fixture)
  have d: "tx_Exec pg (marker_query (Direction file1_down)) [Version file1_down] (committed db_at_1)
             = Inr \<lparr>versions = [], tables = [''yolo'']\<rparr>
           \<and> file_ReadContent pg file1_down = Inr file1_down
           \<and> tx_Exec pg (Content file1_down) [] \<lparr>versions = [], tables = [''yolo'']\<rparr>
               = Inr \<lparr>versions = [], tables = []\<rparr>
           \<and> tx_Commit pg \<lparr>versions = [], tables = []\<rparr> = None"
    by (simp add: pg_fixture)
  have A: "Driver_Migrate pg file1_up empty_db =
       (Returned None,
        empty_db\<lparr>committed := \<lparr>versions = [1], tables = [''yolo'']\<rparr>,
          calls := calls empty_db @ [Begin, Exec (marker_query (Direction file1_up)) [Version file1_up],
                  Exec (Content file1_up) [], Commit]\<rparr>)"
    using Driver_Migrate_marker_first [OF b1, of file1_up] u by blast
  have B: "Driver_Migrate pg file1_down db_at_1 =
       (Returned None,
        db_at_1\<lparr>committed := \<lparr>versions = [], tables = []\<rparr>,
          calls := calls db_at_1 @ [Begin, Exec (marker_query (Direction file1_down)) [Version file1_down],
                  Exec (Content file1_down) [], Commit]\<rparr>)"
    using Driver_Migrate_marker_first [OF b2, of file1_down] d by blast
  show ?thesis
    unfolding A B using b1 b2 by (simp add: pg_fixture)
qed

text \<open>
  C9. When the script fails with an error that is not a \<^verbatim>\<open>*pq.Error\<close>, the type
  assertion of line 81 panics: \<^verbatim>\<open>Driver.Migrate\<close> returns no error at all, neither a
  decoded nor a plain message, and makes no further call on the transaction.
\<close>

theorem Driver_Migrate_non_pq_error_panics:
  assumes "db_Begin env (committed w) = None"
    and "tx_Exec env (marker_query (Direction f)) [Version f] (committed w) = Inr t1"
    and "file_ReadContent env f = Inr f'"
    and "tx_Exec env (Content f') [] t1 = Inl err"
    and "\<not> is_pq_error err"
  shows "fst (Driver_Migrate env f w) = Panicked InterfaceConversion
       \<and> (\<forall>r. fst (Driver_Migrate env f w) \<noteq> Returned r)
       \<and> calls (snd (Driver_Migrate env f w))
           = calls w @ [Begin, Exec (marker_query (Direction f)) [Version f], Exec (Content f') []]"
  by (simp add: Driver_Migrate_script_fails_other [OF assms])

text \<open>
  C9, witness: the connection breaks while the script of the first Down file runs.
\<close>

theorem Driver_Migrate_non_pq_error_panics_witness:
  "tx_Exec pg_bad_conn_down (Content file1_down) [] \<lparr>versions = [], tables = [''yolo'']\<rparr>
     = Inl bad_connection
   \<and> \<not> is_pq_error bad_connection
   \<and> fst (Driver_Migrate pg_bad_conn_down file1_down db_at_1) = Panicked InterfaceConversion
   \<and> calls (snd (Driver_Migrate pg_bad_conn_down file1_down db_at_1))
       = [Begin, Exec delete_query [1], Exec drop_yolo []]"
proof -
  have b: "db_Begin pg_bad_conn_down (committed db_at_1) = None"
    by (simp add: pg_bad_conn_down_def pg_fixture)
  have m: "tx_Exec pg_bad_conn_down (marker_query (Direction file1_down)) [Version file1_down]
             (committed db_at_1) = Inr \<lparr>versions = [], tables = [''yolo'']\<rparr>"
    by (simp add: pg_bad_conn_down_def pg_fixture)
  have c: "file_ReadContent pg_bad_conn_down file1_down = Inr file1_down"
    by (simp add: pg_bad_conn_down_def pg_fixture)
  have s: "tx_Exec pg_bad_conn_down (Content file1_down) [] \<lparr>versions = [], tables = [''yolo'']\<rparr>
             = Inl bad_connection"
    by (simp add: pg_bad_conn_down_def pg_fixture)
  have n: "\<not> is_pq_error bad_connection"
    by (simp add: is_pq_error_def bad_connection_def)
  show ?thesis
    using Driver_Migrate_non_pq_error_panics [OF b m c s n] s n
    by (simp add: pg_fixture)
qed

text \<open>
  C6, as amended. The error of \<^verbatim>\<open>tx.Rollback()\<close> reaches nobody: whatever the rollback
  answers, \<^verbatim>\<open>Driver.Migrate\<close> returns the same result and leaves the same world. The
  caller gets the primary error only.
\<close>

theorem Driver_Migrate_ignores_rollback_error:
  "Driver_Migrate (env\<lparr>tx_Rollback := r1\<rparr>) f w = Driver_Migrate (env\<lparr>tx_Rollback := r2\<rparr>) f w"
  by (simp add: Driver_Migrate_def tx_Rollback_call_def Let_def
      split: option.splits sum.splits error.splits)

text \<open>
  C6, counterexample to the claim as stated: the test's third file fails in its script
  and the rollback fails too, with a broken connection. What \<^verbatim>\<open>Driver.Migrate\<close> returns
  is the decoded script error, the very result it returns when the rollback succeeds;
  the rollback's error appears nowhere.
\<close>

theorem Driver_Migrate_rollback_error_counterexample:
  "tx_Rollback pg_rollback_fails \<lparr>versions = [2], tables = []\<rparr> = Some bad_connection
   \<and> Driver_Migrate pg_rollback_fails file2_up empty_db =
       (Returned (Some (decode_error syntax_error create_error)),
        \<lparr>committed = \<lparr>versions = [], tables = []\<rparr>,
         calls = [Begin, Exec insert_query [2], Exec create_error [], Rollback]\<rparr>)
   \<and> Driver_Migrate pg file2_up empty_db =
       (Returned (Some (decode_error syntax_error create_error)),
        \<lparr>committed = \<lparr>versions = [], tables = []\<rparr>,
         calls = [Begin, Exec insert_query [2], Exec create_error [], Rollback]\<rparr>)"
  by (simp add: Driver_Migrate_def tx_Rollback_call_def pg_rollback_fails_def note_call_def
      pg_fixture)

text \<open>
  C8, the code at the failing input: the first Up file cannot be read from disk.
  \<^verbatim>\<open>Driver.Migrate\<close> has begun the transaction and run the marker statement, and line 76
  returns the error with no call of \<^verbatim>\<open>Rollback\<close> or \<^verbatim>\<open>Commit\<close>: the transaction is left
  open.
\<close>

theorem Driver_Migrate_read_failure_leaves_transaction_open:
  "Driver_Migrate pg_unreadable file1_up empty_db =
     (Returned (Some no_such_file),
      \<lparr>committed = \<lparr>versions = [], tables = []\<rparr>,
       calls = [Begin, Exec insert_query [1]]\<rparr>)
   \<and> Commit \<notin> set (calls (snd (Driver_Migrate pg_unreadable file1_up empty_db)))
   \<and> Rollback \<notin> set (calls (snd (Driver_Migrate pg_unreadable file1_up empty_db)))"
  by (simp add: Driver_Migrate_def pg_unreadable_def note_call_def pg_fixture)

section \<open>Decoding the error of a failed script\<close>

lemma line_column_scan_eq:
  "line_column_scan xs k (l, c) =
     (l + int (count_list (take k xs) newline),
      if newline \<in> set (take k xs)
      then 1 + int (length (takeWhile (\<lambda>x. x \<noteq> newline) (rev (take k xs))))
      else c + int (length (take k xs)))"
proof (induction xs k "(l, c)" arbitrary: l c rule: line_column_scan.induct)
  case (1 k l c)
  show ?case by simp
next
  case (2 x xs l c)
  show ?case by simp
next
  case (3 x xs k l c)
  show ?case
  proof (cases "x = newline")
    case True
    show ?thesis
    proof (cases "newline \<in> set (take k xs)")
      case yes: True
      then have "newline \<in> set (rev (take k xs))" by simp
      then have "takeWhile (\<lambda>x. x \<noteq> newline) (rev (take k xs) @ [x])
                   = takeWhile (\<lambda>x. x \<noteq> newline) (rev (take k xs))"
        by (intro takeWhile_append1) simp_all
      then show ?thesis
        using True yes 3(1) [OF True] by simp
    next
      case no: False
      then have "\<And>y. y \<in> set (rev (take k xs)) \<Longrightarrow> y \<noteq> newline"
        by auto
      then have "takeWhile (\<lambda>x. x \<noteq> newline) (rev (take k xs) @ [x]) = rev (take k xs)"
        using True by (subst takeWhile_append2) simp_all
      then show ?thesis
        using True no 3(1) [OF True] by simp
    qed
  next
    case False
    show ?thesis
    proof (cases "newline \<in> set (take k xs)")
      case yes: True
      then have "newline \<in> set (rev (take k xs))" by simp
      then have "takeWhile (\<lambda>x. x \<noteq> newline) (rev (take k xs) @ [x])
                   = takeWhile (\<lambda>x. x \<noteq> newline) (rev (take k xs))"
        by (intro takeWhile_append1) simp_all
      then show ?thesis
        using False yes 3(2) [OF False] by simp
    next
      case no: False
      show ?thesis
        using False no 3(2) [OF False] by simp
    qed
  qed
qed

lemma LineColumnFromOffset_eq:
  "LineColumnFromOffset data offset =
     (1 + int (count_list (take (nat offset) data) newline),
      1 + int (length (takeWhile (\<lambda>x. x \<noteq> newline) (rev (take (nat offset) data)))))"
proof (cases "newline \<in> set (take (nat offset) data)")
  case True
  then show ?thesis
    by (simp add: LineColumnFromOffset_def line_column_scan_eq)
next
  case False
  then have eq: "takeWhile (\<lambda>x. x \<noteq> newline) (rev (take (nat offset) data))
               = rev (take (nat offset) data)"
    by (intro takeWhile_eq_all_conv [THEN iffD2]) auto
  have "length (takeWhile (\<lambda>x. x \<noteq> newline) (rev (take (nat offset) data)))
               = length (take (nat offset) data)"
    by (simp only: eq length_rev)
  then show ?thesis
    using False by (simp only: LineColumnFromOffset_def line_column_scan_eq if_False)
qed

lemma split_lines_not_Nil: "split_lines xs \<noteq> []"
  by (induction xs) (auto split: list.splits)

lemma length_split_lines: "length (split_lines xs) = 1 + count_list xs newline"
  using split_lines_not_Nil by (induction xs) (auto split: list.splits)

lemma count_list_take_le: "count_list (take k xs) a \<le> count_list xs a"
proof -
  have "count_list xs a = count_list (take k xs @ drop k xs) a" by simp
  also have "\<dots> = count_list (take k xs) a + count_list (drop k xs) a"
    by (simp only: count_list_append)
  finally show ?thesis by simp
qed

lemma decode_error_plain:
  assumes "Atoi (Position pqErr) = None \<or> (Atoi (Position pqErr) = Some n \<and> n < 0)"
  shows "decode_error pqErr content = ErrorString (plain_message pqErr)"
  using assms by (auto simp add: decode_error_def)

lemma decode_error_positional:
  assumes "Atoi (Position pqErr) = Some n" and "0 \<le> n"
  shows "decode_error pqErr content =
    ErrorString (plain_message pqErr
      @ '' in line '' @ Itoa (fst (LineColumnFromOffset content (n - 1)))
      @ '', column '' @ Itoa (snd (LineColumnFromOffset content (n - 1)))
      @ '':'' @ [newline, newline]
      @ LinesBeforeAndAfter content (fst (LineColumnFromOffset content (n - 1))) 5 5 True)"
  using assms by (simp add: decode_error_def plain_message_def split: prod.splits)

lemma LinesBeforeAndAfter_window:
  assumes "1 \<le> line" and "line \<le> int (length (split_lines data))"
  shows "\<exists>ws. LinesBeforeAndAfter data line 5 5 b = join_lines ws
            \<and> int (length ws) = min (int (length (split_lines data))) (line + 5) - max 1 (line - 5) + 1
            \<and> (\<forall>i<length ws. ws ! i = split_lines data ! (nat (max 1 (line - 5)) - 1 + i))"
proof -
  let ?ls = "split_lines data"
  let ?first = "max 1 (line - 5)"
  let ?ws = "take (nat (line + 5 - ?first + 1)) (drop (nat (?first - 1)) ?ls)"
  have a: "LinesBeforeAndAfter data line 5 5 b = join_lines ?ws"
    by (simp add: LinesBeforeAndAfter_def Let_def)
  have b: "int (length ?ws) = min (int (length ?ls)) (line + 5) - ?first + 1"
    using assms by (simp add: min_def max_def) linarith
  have c: "\<forall>i<length ?ws. ?ws ! i = ?ls ! (nat ?first - 1 + i)"
  proof (intro allI impI)
    fix i assume "i < length ?ws"
    then have "?ws ! i = drop (nat (?first - 1)) ?ls ! i" by simp
    also have "\<dots> = ?ls ! (nat (?first - 1) + i)"
    proof (rule nth_drop)
      show "nat (?first - 1) \<le> length ?ls"
        using assms by (simp add: max_def) linarith
    qed
    finally have n: "?ws ! i = ?ls ! (nat (?first - 1) + i)" .
    have e: "nat ?first - 1 = nat (?first - 1)"
      by (simp add: nat_diff_distrib')
    show "?ws ! i = ?ls ! (nat ?first - 1 + i)"
      by (simp only: e n)
  qed
  from a b c show ?thesis by blast
qed

text \<open>
  C4, as amended. Let the script fail with a \<^verbatim>\<open>*pq.Error\<close>.
  \<^item> When its \<^verbatim>\<open>Position\<close> does not parse as an integer (no position was reported) or
    parses to a negative number, the returned error is the plain text
    \<open>severity code: message\<close>.
  \<^item> When it parses to a number \<open>n \<ge> 0\<close>, the returned error is severity, code and
    message, then the line and the column of the offset \<open>n - 1\<close>, then the context
    window of 5 lines before and 5 lines after that line.
  \<^item> For a position inside the script or at its end (\<open>1 \<le> n \<le> length + 1\<close>), line and
    column are 1-based counts of characters: the line is one more than the number of
    newlines before the offset, the column one more than the number of characters
    between the last of these newlines and the offset; and the window is the lines
    numbered from \<open>max 1 (line - 5)\<close> to \<open>min N (line + 5)\<close>, of the \<open>N\<close> lines of the
    script.
\<close>

theorem Driver_Migrate_decodes_position:
  assumes "db_Begin env (committed w) = None"
    and "tx_Exec env (marker_query (Direction f)) [Version f] (committed w) = Inr t1"
    and "file_ReadContent env f = Inr f'"
    and "tx_Exec env (Content f') [] t1 = Inl (PqError pqErr)"
  shows
   "(Atoi (Position pqErr) = None \<or> (Atoi (Position pqErr) = Some n \<and> n < 0) \<longrightarrow>
       fst (Driver_Migrate env f w) =
         Returned (Some (ErrorString (Severity pqErr @ '' '' @ Code pqErr @ '': '' @ Message pqErr))))
  \<and> (Atoi (Position pqErr) = Some n \<and> 0 \<le> n \<longrightarrow>
       (\<exists>line column. LineColumnFromOffset (Content f') (n - 1) = (line, column)
          \<and> fst (Driver_Migrate env f w) =
              Returned (Some (ErrorString
                (Severity pqErr @ '' '' @ Code pqErr @ '': '' @ Message pqErr
                 @ '' in line '' @ Itoa line @ '', column '' @ Itoa column @ '':''
                 @ [newline, newline] @ LinesBeforeAndAfter (Content f') line 5 5 True)))))
  \<and> (1 \<le> n \<and> n \<le> int (length (Content f')) + 1 \<longrightarrow>
       (\<exists>line column ws. LineColumnFromOffset (Content f') (n - 1) = (line, column)
          \<and> line = 1 + int (count_list (take (nat (n - 1)) (Content f')) newline)
          \<and> column = 1 + int (length (takeWhile (\<lambda>x. x \<noteq> newline)
                                        (rev (take (nat (n - 1)) (Content f')))))
          \<and> LinesBeforeAndAfter (Content f') line 5 5 True = join_lines ws
          \<and> int (length ws) = min (int (length (split_lines (Content f')))) (line + 5)
                                - max 1 (line - 5) + 1
          \<and> (\<forall>i<length ws. ws ! i = split_lines (Content f') ! (nat (max 1 (line - 5)) - 1 + i))))"
proof (intro conjI impI)
  note r = Driver_Migrate_script_fails_pq [OF assms]
  {
    assume "Atoi (Position pqErr) = None \<or> (Atoi (Position pqErr) = Some n \<and> n < 0)"
    then show "fst (Driver_Migrate env f w) =
         Returned (Some (ErrorString (Severity pqErr @ '' '' @ Code pqErr @ '': '' @ Message pqErr)))"
      by (simp add: r decode_error_plain [where n = n] plain_message_def)
  }
  {
    assume a: "Atoi (Position pqErr) = Some n \<and> 0 \<le> n"
    obtain line column where lc: "LineColumnFromOffset (Content f') (n - 1) = (line, column)"
      by (cases "LineColumnFromOffset (Content f') (n - 1)") blast
    have "fst (Driver_Migrate env f w) =
              Returned (Some (ErrorString
                (Severity pqErr @ '' '' @ Code pqErr @ '': '' @ Message pqErr
                 @ '' in line '' @ Itoa line @ '', column '' @ Itoa column @ '':''
                 @ [newline, newline] @ LinesBeforeAndAfter (Content f') line 5 5 True)))"
      using a lc by (simp add: r decode_error_positional [where n = n] plain_message_def)
    with lc show "\<exists>line column. LineColumnFromOffset (Content f') (n - 1) = (line, column)
          \<and> fst (Driver_Migrate env f w) =
              Returned (Some (ErrorString
                (Severity pqErr @ '' '' @ Code pqErr @ '': '' @ Message pqErr
                 @ '' in line '' @ Itoa line @ '', column '' @ Itoa column @ '':''
                 @ [newline, newline] @ LinesBeforeAndAfter (Content f') line 5 5 True)))"
      by blast
  }
  {
    assume v: "1 \<le> n \<and> n \<le> int (length (Content f')) + 1"
    let ?line = "1 + int (count_list (take (nat (n - 1)) (Content f')) newline)"
    let ?column = "1 + int (length (takeWhile (\<lambda>x. x \<noteq> newline)
                                        (rev (take (nat (n - 1)) (Content f')))))"
    have lc: "LineColumnFromOffset (Content f') (n - 1) = (?line, ?column)"
      by (rule LineColumnFromOffset_eq)
    have "?line \<le> int (length (split_lines (Content f')))"
      using count_list_take_le [of "nat (n - 1)" "Content f'" newline]
      by (simp add: length_split_lines)
    moreover have "1 \<le> ?line" by simp
    ultimately obtain ws where
      "LinesBeforeAndAfter (Content f') ?line 5 5 True = join_lines ws
       \<and> int (length ws) = min (int (length (split_lines (Content f')))) (?line + 5)
                             - max 1 (?line - 5) + 1
       \<and> (\<forall>i<length ws. ws ! i = split_lines (Content f') ! (nat (max 1 (?line - 5)) - 1 + i))"
      using LinesBeforeAndAfter_window [of ?line "Content f'" True] by blast
    with lc show "\<exists>line column ws. LineColumnFromOffset (Content f') (n - 1) = (line, column)
          \<and> line = 1 + int (count_list (take (nat (n - 1)) (Content f')) newline)
          \<and> column = 1 + int (length (takeWhile (\<lambda>x. x \<noteq> newline)
                                        (rev (take (nat (n - 1)) (Content f')))))
          \<and> LinesBeforeAndAfter (Content f') line 5 5 True = join_lines ws
          \<and> int (length ws) = min (int (length (split_lines (Content f')))) (line + 5)
                                - max 1 (line - 5) + 1
          \<and> (\<forall>i<length ws. ws ! i = split_lines (Content f') ! (nat (max 1 (line - 5)) - 1 + i))"
      by blast
  }
qed

lemma Atoi_30: "Atoi ''30'' = Some 30"
  by (simp add: Atoi_def digit_val_def)

lemma Atoi_empty: "Atoi [] = None"
  by (simp add: Atoi_def)

lemma LineColumnFromOffset_create_error: "LineColumnFromOffset create_error 29 = (2, 9)"
  by (simp add: LineColumnFromOffset_eq create_error_def newline_def)

lemma LinesBeforeAndAfter_create_error: "LinesBeforeAndAfter create_error 2 5 5 True = create_error"
  by (simp add: LinesBeforeAndAfter_def create_error_def newline_def)

lemma Itoa_2_9: "Itoa 2 = ''2''" "Itoa 9 = ''9''"
  by (simp_all add: Itoa_def)

text \<open>
  C4, witness. The test's third file fails with a syntax error at position 30 (the
  \<open>W\<close> of \<open>WILL\<close>): line 2, column 9, and the window is the whole script of three lines.
  Dropping the table that does not exist fails with an error that has no position: the
  plain text.
\<close>

theorem Driver_Migrate_decodes_position_witness:
  "Atoi (Position syntax_error) = Some 30
   \<and> fst (Driver_Migrate pg file2_up empty_db) =
       Returned (Some (ErrorString
         (''ERROR 42601: syntax error at or near WILL in line 2, column 9:''
          @ [newline, newline] @ ''CREATE TABLE error ('' @ [newline]
          @ ''id THIS WILL CAUSE AN ERROR'' @ [newline] @ '')'')))
   \<and> 30 \<le> int (length (Content file2_up)) + 1
   \<and> LineColumnFromOffset (Content file2_up) (30 - 1) = (2, 9)
   \<and> LinesBeforeAndAfter (Content file2_up) 2 5 5 True = Content file2_up
   \<and> Atoi (Position undefined_table) = None
   \<and> fst (Driver_Migrate pg file1_down empty_db) =
       Returned (Some (ErrorString ''ERROR 42P01: table yolo does not exist''))"
proof -
  have v: "30 \<le> int (length (Content file2_up)) + 1"
    by (simp add: file2_up_def create_error_def)
  have lc: "LineColumnFromOffset (Content file2_up) (30 - 1) = (2, 9)"
    by (simp add: file2_up_def LineColumnFromOffset_create_error)
  have win: "LinesBeforeAndAfter (Content file2_up) 2 5 5 True = Content file2_up"
    by (simp add: file2_up_def LinesBeforeAndAfter_create_error)
  have b: "db_Begin pg (committed empty_db) = None"
    by (simp add: pg_fixture)
  have m2: "tx_Exec pg (marker_query (Direction file2_up)) [Version file2_up] (committed empty_db)
              = Inr \<lparr>versions = [2], tables = []\<rparr>"
    by (simp add: pg_fixture)
  have c2: "file_ReadContent pg file2_up = Inr file2_up"
    by (simp add: pg_fixture)
  have s2: "tx_Exec pg (Content file2_up) [] \<lparr>versions = [2], tables = []\<rparr>
              = Inl (PqError syntax_error)"
    by (simp add: pg_fixture)
  have p2: "Atoi (Position syntax_error) = Some 30"
    by (simp add: syntax_error_def Atoi_30)
  have k2: "Content file2_up = create_error"
    by (simp add: file2_up_def)
  have m1: "tx_Exec pg (marker_query (Direction file1_down)) [Version file1_down] (committed empty_db)
              = Inr \<lparr>versions = [], tables = []\<rparr>"
    by (simp add: pg_fixture)
  have c1: "file_ReadContent pg file1_down = Inr file1_down"
    by (simp add: pg_fixture)
  have s1: "tx_Exec pg (Content file1_down) [] \<lparr>versions = [], tables = []\<rparr>
              = Inl (PqError undefined_table)"
    by (simp add: pg_fixture)
  have p1: "Atoi (Position undefined_table) = None"
    by (simp add: undefined_table_def Atoi_empty)
  note A = Driver_Migrate_decodes_position [OF b m2 c2 s2, of 30]
  note B = Driver_Migrate_decodes_position [OF b m1 c1 s1, of 0]
  have "fst (Driver_Migrate pg file2_up empty_db) =
       Returned (Some (ErrorString
         (Severity syntax_error @ '' '' @ Code syntax_error @ '': '' @ Message syntax_error
          @ '' in line '' @ Itoa 2 @ '', column '' @ Itoa 9 @ '':''
          @ [newline, newline] @ LinesBeforeAndAfter create_error 2 5 5 True)))"
    using A p2 by (simp add: k2 LineColumnFromOffset_create_error)
  then have a: "fst (Driver_Migrate pg file2_up empty_db) =
       Returned (Some (ErrorString
         (''ERROR 42601: syntax error at or near WILL in line 2, column 9:''
          @ [newline, newline] @ ''CREATE TABLE error ('' @ [newline]
          @ ''id THIS WILL CAUSE AN ERROR'' @ [newline] @ '')'')))"
    by (simp only: LinesBeforeAndAfter_create_error Itoa_2_9)
       (simp add: syntax_error_def create_error_def)
  have "fst (Driver_Migrate pg file1_down empty_db) =
       Returned (Some (ErrorString
         (Severity undefined_table @ '' '' @ Code undefined_table @ '': '' @ Message undefined_table)))"
    using B p1 by simp
  then have "fst (Driver_Migrate pg file1_down empty_db) =
       Returned (Some (ErrorString ''ERROR 42P01: table yolo does not exist''))"
    by (simp add: undefined_table_def)
  with a p1 p2 v lc win show ?thesis
    by simp
qed

text \<open>
  C4, counterexample to the claim as stated (an invalid computed offset falls back to
  the plain text). The backend reports position 0, so the computed offset \<open>0 - 1\<close> is
  negative; or it reports position 1000, so the computed offset is far out of the
  script's 50 bytes. In both cases line 84 sees a parsed position that is not
  negative, and the error returned is not the plain text.
\<close>

theorem Driver_Migrate_invalid_offset_counterexample:
  "tx_Exec pg_position_0 (Content file2_up) [] \<lparr>versions = [2], tables = []\<rparr>
     = Inl (PqError (syntax_error\<lparr>Position := ''0''\<rparr>))
   \<and> Atoi ''0'' = Some 0
   \<and> fst (Driver_Migrate pg_position_0 file2_up empty_db)
       \<noteq> Returned (Some (ErrorString ''ERROR 42601: syntax error at or near WILL''))
   \<and> tx_Exec pg_position_1000 (Content file2_up) [] \<lparr>versions = [2], tables = []\<rparr>
       = Inl (PqError (syntax_error\<lparr>Position := ''1000''\<rparr>))
   \<and> Atoi ''1000'' = Some 1000
   \<and> length (Content file2_up) = 50
   \<and> fst (Driver_Migrate pg_position_1000 file2_up empty_db)
       \<noteq> Returned (Some (ErrorString ''ERROR 42601: syntax error at or near WILL''))"
proof -
  have a0: "Atoi ''0'' = Some 0"
    by (simp add: Atoi_def digit_val_def)
  have a1: "Atoi ''1000'' = Some 1000"
    by (simp add: Atoi_def digit_val_def)
  have e0: "tx_Exec pg_position_0 (Content file2_up) [] \<lparr>versions = [2], tables = []\<rparr>
     = Inl (PqError (syntax_error\<lparr>Position := ''0''\<rparr>))"
    by (simp add: pg_position_0_def pg_fixture)
  have e1: "tx_Exec pg_position_1000 (Content file2_up) [] \<lparr>versions = [2], tables = []\<rparr>
     = Inl (PqError (syntax_error\<lparr>Position := ''1000''\<rparr>))"
    by (simp add: pg_position_1000_def pg_fixture)
  have r0: "Driver_Migrate pg_position_0 file2_up empty_db =
    (Returned (Some (decode_error (syntax_error\<lparr>Position := ''0''\<rparr>) (Content file2_up))),
     empty_db\<lparr>calls := calls empty_db @ [Begin, Exec (marker_query (Direction file2_up)) [Version file2_up],
                            Exec (Content file2_up) [], Rollback]\<rparr>)"
    by (rule Driver_Migrate_script_fails_pq [where ?t1.0 = "\<lparr>versions = [2], tables = []\<rparr>"])
       (simp_all add: pg_position_0_def pg_fixture)
  have r1: "Driver_Migrate pg_position_1000 file2_up empty_db =
    (Returned (Some (decode_error (syntax_error\<lparr>Position := ''1000''\<rparr>) (Content file2_up))),
     empty_db\<lparr>calls := calls empty_db @ [Begin, Exec (marker_query (Direction file2_up)) [Version file2_up],
                            Exec (Content file2_up) [], Rollback]\<rparr>)"
    by (rule Driver_Migrate_script_fails_pq [where ?t1.0 = "\<lparr>versions = [2], tables = []\<rparr>"])
       (simp_all add: pg_position_1000_def pg_fixture)
  have d0: "decode_error (syntax_error\<lparr>Position := ''0''\<rparr>) (Content file2_up)
              \<noteq> ErrorString ''ERROR 42601: syntax error at or near WILL''"
    by (simp add: decode_error_positional [where n = 0] a0 plain_message_def syntax_error_def)
  have d1: "decode_error (syntax_error\<lparr>Position := ''1000''\<rparr>) (Content file2_up)
              \<noteq> ErrorString ''ERROR 42601: syntax error at or near WILL''"
    by (simp add: decode_error_positional [where n = 1000] a1 plain_message_def syntax_error_def)
  have l: "length (Content file2_up) = 50"
    by (simp add: file2_up_def create_error_def)
  show ?thesis
    using a0 a1 e0 e1 d0 d1 l by (simp add: r0 r1)
qed

section \<open>The orchestrator\<close>

lemma Driver_Migrate_calls:
  "\<exists>ks. calls (snd (Driver_Migrate env f w)) = calls w @ ks \<and> Close \<notin> set ks"
  by (simp add: Driver_Migrate_def tx_Rollback_call_def Let_def
      split: option.splits sum.splits error.splits)

lemma migrate_files_calls:
  "\<exists>ks. calls (snd (migrate_files env fs w)) = calls w @ ks \<and> Close \<notin> set ks"
proof (induction fs arbitrary: w)
  case Nil
  show ?case by simp
next
  case (Cons f fs)
  obtain r w' where m: "Driver_Migrate env f w = (r, w')"
    by (cases "Driver_Migrate env f w") blast
  obtain ks where ks: "calls w' = calls w @ ks" "Close \<notin> set ks"
    using Driver_Migrate_calls [of env f w] m by auto
  show ?case
  proof (cases r)
    case (Panicked p)
    then show ?thesis using m ks by simp
  next
    case (Returned e)
    show ?thesis
    proof (cases e)
      case (Some err)
      then show ?thesis using m ks Returned by simp
    next
      case None
      obtain ks' where "calls (snd (migrate_files env fs w')) = calls w' @ ks'" "Close \<notin> set ks'"
        using Cons.IH [of w'] by blast
      then have "calls (snd (migrate_files env fs w')) = calls w @ (ks @ ks') \<and> Close \<notin> set (ks @ ks')"
        using ks by simp
      then show ?thesis
        using m Returned None by (simp del: append_assoc)
    qed
  qed
qed

lemma init_driver_New_fails:
  assumes "driver_New env url (committed w) = Inl err"
  shows "initDriverAndReadMigrationFilesAndGetVersion env url migrationsPath w
           = ((None, None, 0, Some err), w)"
  using assms by (simp add: initDriverAndReadMigrationFilesAndGetVersion_def)

text \<open>
  C10. When \<^verbatim>\<open>driver.New\<close> fails (a nil driver and an error), \<^verbatim>\<open>Up\<close> and \<^verbatim>\<open>Migrate\<close>
  panic with a nil dereference at \<^verbatim>\<open>defer d.Close()\<close>, which they reach before they
  look at the error; \<^verbatim>\<open>Down\<close> returns the error. None of the three makes a call on the
  database. And when the initialisation succeeds, \<^verbatim>\<open>Down\<close> makes no \<^verbatim>\<open>Close\<close> call
  after it: it never closes the driver it was given.
\<close>

theorem Up_and_Migrate_panic_on_nil_driver:
  assumes "driver_New env url (committed w) = Inl err"
  shows "migrate_Up env url migrationsPath w = (Panicked NilPointerDereference, w)
       \<and> migrate_Migrate env url migrationsPath relativeN w = (Panicked NilPointerDereference, w)
       \<and> migrate_Down env url migrationsPath w = (Returned (Some err), w)
       \<and> (initDriverAndReadMigrationFilesAndGetVersion env' url' migrationsPath' w'
             = ((Some d, Some mfs, version, None), w0)
           \<longrightarrow> (\<exists>ks. calls (snd (migrate_Down env' url' migrationsPath' w')) = calls w0 @ ks
                      \<and> Close \<notin> set ks))"
proof -
  note i = init_driver_New_fails [OF assms]
  have up: "migrate_Up env url migrationsPath w = (Panicked NilPointerDereference, w)"
    by (simp add: migrate_Up_def i)
  have mig: "migrate_Migrate env url migrationsPath relativeN w = (Panicked NilPointerDereference, w)"
    by (simp add: migrate_Migrate_def i)
  have down: "migrate_Down env url migrationsPath w = (Returned (Some err), w)"
    by (simp add: migrate_Down_def i)
  have leak: "initDriverAndReadMigrationFilesAndGetVersion env' url' migrationsPath' w'
             = ((Some d, Some mfs, version, None), w0)
           \<longrightarrow> (\<exists>ks. calls (snd (migrate_Down env' url' migrationsPath' w')) = calls w0 @ ks
                      \<and> Close \<notin> set ks)"
  proof
    assume ok: "initDriverAndReadMigrationFilesAndGetVersion env' url' migrationsPath' w'
             = ((Some d, Some mfs, version, None), w0)"
    show "\<exists>ks. calls (snd (migrate_Down env' url' migrationsPath' w')) = calls w0 @ ks
                      \<and> Close \<notin> set ks"
    proof (cases "fst (ToFirstFrom mfs version) = []")
      case True
      then have "migrate_Down env' url' migrationsPath' w' = (Returned None, w0)"
        by (simp add: migrate_Down_def ok)
      then show ?thesis by simp
    next
      case False
      then have "migrate_Down env' url' migrationsPath' w'
                   = migrate_files env' (fst (ToFirstFrom mfs version)) w0"
        by (simp add: migrate_Down_def ok)
      then show ?thesis
        using migrate_files_calls [of env' "fst (ToFirstFrom mfs version)" w0] by simp
    qed
  qed
  from up mig down leak show ?thesis by blast
qed

text \<open>
  C10, witness: a URL with no registered driver; and, for the last part, the test
  database at version 1, which \<^verbatim>\<open>Down\<close> takes back to version 0 without a \<^verbatim>\<open>Close\<close>.
\<close>

theorem Up_and_Migrate_panic_on_nil_driver_witness:
  "driver_New pg_no_driver ''mysql://localhost/db'' (committed empty_db) = Inl driver_not_found
   \<and> migrate_Up pg_no_driver ''mysql://localhost/db'' ''/foobar'' empty_db
       = (Panicked NilPointerDereference, empty_db)
   \<and> migrate_Migrate pg_no_driver ''mysql://localhost/db'' ''/foobar'' 1 empty_db
       = (Panicked NilPointerDereference, empty_db)
   \<and> migrate_Down pg_no_driver ''mysql://localhost/db'' ''/foobar'' empty_db
       = (Returned (Some driver_not_found), empty_db)
   \<and> initDriverAndReadMigrationFilesAndGetVersion pg ''postgres://localhost/db'' ''/foobar'' db_at_1
       = ((Some PostgresDriver, Some test_files, 1, None), db_at_1\<lparr>calls := [QueryRow version_query]\<rparr>)
   \<and> migrate_Down pg ''postgres://localhost/db'' ''/foobar'' db_at_1
       = (Returned None,
          \<lparr>committed = \<lparr>versions = [], tables = []\<rparr>,
           calls = [QueryRow version_query, Begin, Exec delete_query [1], Exec drop_yolo [], Commit]\<rparr>)"
proof -
  have n: "driver_New pg_no_driver ''mysql://localhost/db'' (committed empty_db) = Inl driver_not_found"
    by (simp add: pg_no_driver_def pg_def)
  have i: "initDriverAndReadMigrationFilesAndGetVersion pg ''postgres://localhost/db'' ''/foobar'' db_at_1
       = ((Some PostgresDriver, Some test_files, 1, None), db_at_1\<lparr>calls := [QueryRow version_query]\<rparr>)"
    by (simp add: initDriverAndReadMigrationFilesAndGetVersion_def Driver_Version_def note_call_def
        pg_def pg_QueryRow_def db_at_1_def)
  have d: "migrate_Down pg ''postgres://localhost/db'' ''/foobar'' db_at_1
       = (Returned None,
          \<lparr>committed = \<lparr>versions = [], tables = []\<rparr>,
           calls = [QueryRow version_query, Begin, Exec delete_query [1], Exec drop_yolo [], Commit]\<rparr>)"
    unfolding migrate_Down_def i
    by (simp add: ToFirstFrom_def down_files_def test_files_def List.map_filter_simps
        sort_key_def Driver_Migrate_def note_call_def pg_fixture)
  note T = Up_and_Migrate_panic_on_nil_driver [OF n, where migrationsPath = "''/foobar''"
      and relativeN = 1 and env' = pg and url' = "''postgres://localhost/db''"
      and migrationsPath' = "''/foobar''" and w' = db_at_1 and d = PostgresDriver
      and mfs = test_files and version = 1
      and ?w0.0 = "db_at_1\<lparr>calls := [QueryRow version_query]\<rparr>"]
  from T n i d show ?thesis
    by simp
qed

lemma migrate_files_append:
  "migrate_files env (xs @ ys) w =
     (case migrate_files env xs w of
        (Returned None, w') \<Rightarrow> migrate_files env ys w'
      | (Returned (Some err), w') \<Rightarrow> (Returned (Some err), w')
      | (Panicked p, w') \<Rightarrow> (Panicked p, w'))"
  by (induction xs arbitrary: w) (auto split: prod.splits outcome.splits option.splits)

lemma Driver_Migrate_error_keeps_committed:
  assumes "Driver_Migrate env f w = (Returned (Some err), w')"
  shows "committed w' = committed w"
  using assms
  by (auto simp add: Driver_Migrate_def tx_Rollback_call_def Let_def
      split: option.splits sum.splits error.splits)

lemma init_succeeds_Up:
  assumes "initDriverAndReadMigrationFilesAndGetVersion env url migrationsPath w
             = ((Some d, Some mfs, version, None), w0)"
  shows "migrate_Up env url migrationsPath w =
           (if fst (ToLastFrom mfs version) = [] then (Returned None, note_call Close w0)
            else deferred_Close env (migrate_files env (fst (ToLastFrom mfs version)) w0))"
  by (simp add: migrate_Up_def assms deferred_Close_def Driver_Close_def)

text \<open>
  Where the failing record's \<^verbatim>\<open>d.Migrate\<close> returns its error. Let \<^verbatim>\<open>Up\<close> have
  initialised the driver and let the files to apply be \<open>pre\<close>, then
  \<open>f\<close>, then \<open>post\<close>, where every file of \<open>pre\<close> is applied without error, in order, and
  \<open>f\<close> then fails with \<open>err\<close>. \<^verbatim>\<open>Up\<close> returns \<open>err\<close>; the world it leaves is the one
  \<open>f\<close> left, closed: no file of \<open>post\<close> is attempted. The committed database is the one
  reached after \<open>pre\<close>: what was applied before the failure stays committed, and the
  current version is the one reached after \<open>pre\<close>.
\<close>

theorem Up_stops_at_first_failure:
  assumes "initDriverAndReadMigrationFilesAndGetVersion env url migrationsPath w
             = ((Some d, Some mfs, version, None), w0)"
    and "fst (ToLastFrom mfs version) = pre @ f # post"
    and "migrate_files env pre w0 = (Returned None, w1)"
    and "Driver_Migrate env f w1 = (Returned (Some err), w2)"
  shows "migrate_Up env url migrationsPath w = (Returned (Some err), note_call Close w2)
       \<and> migrate_files env (pre @ f # post) w0 = (Returned (Some err), w2)
       \<and> committed (snd (migrate_Up env url migrationsPath w)) = committed w1
       \<and> fst (Driver_Version env (snd (migrate_Up env url migrationsPath w)))
           = fst (Driver_Version env w1)"
proof -
  have run: "migrate_files env (pre @ f # post) w0 = (Returned (Some err), w2)"
    by (simp add: migrate_files_append assms(3) assms(4))
  have up: "migrate_Up env url migrationsPath w = (Returned (Some err), note_call Close w2)"
    by (simp add: init_succeeds_Up [OF assms(1)] assms(2) run deferred_Close_def Driver_Close_def)
  have c: "committed w2 = committed w1"
    by (rule Driver_Migrate_error_keeps_committed [OF assms(4)])
  show ?thesis
    by (simp add: up run c Driver_Version_result)
qed

text \<open>
  Two examples. The spec's scenario: from version 0, \<^verbatim>\<open>Up\<close> applies the first file,
  fails in the second with the decoded error, and leaves version 1 with the table
  \<open>yolo\<close>. And with a database that refuses every transaction, the first file fails and
  the second is never attempted.
\<close>

theorem Up_stops_at_first_failure_witness:
  "fst (ToLastFrom test_files 0) = [file1_up] @ file2_up # []
   \<and> migrate_Up pg ''postgres://localhost/db'' ''/foobar'' empty_db =
       (Returned (Some (decode_error syntax_error create_error)),
        \<lparr>committed = \<lparr>versions = [1], tables = [''yolo'']\<rparr>,
         calls = [QueryRow version_query,
                  Begin, Exec insert_query [1], Exec create_yolo [], Commit,
                  Begin, Exec insert_query [2], Exec create_error [], Rollback,
                  Close]\<rparr>)
   \<and> fst (Driver_Version pg (snd (migrate_Up pg ''postgres://localhost/db'' ''/foobar'' empty_db)))
       = (1, None)
   \<and> fst (ToLastFrom test_files 0) = [] @ file1_up # [file2_up]
   \<and> migrate_Up pg_begin_fails ''postgres://localhost/db'' ''/foobar'' empty_db =
       (Returned (Some bad_connection),
        \<lparr>committed = \<lparr>versions = [], tables = []\<rparr>,
         calls = [QueryRow version_query, Begin, Close]\<rparr>)"
proof -
  let ?w0 = "empty_db\<lparr>calls := [QueryRow version_query]\<rparr>"
  let ?w1 = "\<lparr>committed = \<lparr>versions = [1], tables = [''yolo'']\<rparr>,
              calls = [QueryRow version_query,
                       Begin, Exec insert_query [1], Exec create_yolo [], Commit]\<rparr>"
  let ?w2 = "\<lparr>committed = \<lparr>versions = [1], tables = [''yolo'']\<rparr>,
              calls = [QueryRow version_query,
                       Begin, Exec insert_query [1], Exec create_yolo [], Commit,
                       Begin, Exec insert_query [2], Exec create_error [], Rollback]\<rparr>"
  have i: "initDriverAndReadMigrationFilesAndGetVersion pg ''postgres://localhost/db'' ''/foobar'' empty_db
             = ((Some PostgresDriver, Some test_files, 0, None), ?w0)"
    by (simp add: initDriverAndReadMigrationFilesAndGetVersion_def Driver_Version_def note_call_def
        pg_def pg_QueryRow_def empty_db_def)
  have i': "initDriverAndReadMigrationFilesAndGetVersion pg_begin_fails ''postgres://localhost/db''
              ''/foobar'' empty_db
             = ((Some PostgresDriver, Some test_files, 0, None), ?w0)"
    by (simp add: initDriverAndReadMigrationFilesAndGetVersion_def Driver_Version_def note_call_def
        pg_begin_fails_def pg_def pg_QueryRow_def empty_db_def)
  have s: "fst (ToLastFrom test_files 0) = [file1_up] @ file2_up # []"
    by (simp add: ToLastFrom_def up_files_def test_files_def List.map_filter_simps sort_key_def
        file1_up_def file2_up_def)
  have s': "fst (ToLastFrom test_files 0) = [] @ file1_up # [file2_up]"
    using s by simp
  have p: "migrate_files pg [file1_up] ?w0 = (Returned None, ?w1)"
    by (simp add: Driver_Migrate_def note_call_def pg_fixture)
  have p': "migrate_files pg_begin_fails [] ?w0 = (Returned None, ?w0)"
    by simp
  have f: "Driver_Migrate pg file2_up ?w1 = (Returned (Some (decode_error syntax_error create_error)), ?w2)"
    by (simp add: Driver_Migrate_def tx_Rollback_call_def note_call_def pg_fixture)
  have f': "Driver_Migrate pg_begin_fails file1_up ?w0
              = (Returned (Some bad_connection), ?w0\<lparr>calls := [QueryRow version_query, Begin]\<rparr>)"
    by (simp add: Driver_Migrate_def note_call_def pg_begin_fails_def pg_fixture)
  note A = Up_stops_at_first_failure [OF i s p f]
  note B = Up_stops_at_first_failure [OF i' s' p' f']
  have v: "fst (Driver_Version pg ?w1) = (1, None)"
    by (simp add: Driver_Version_result pg_def pg_QueryRow_def)
  have a1: "migrate_Up pg ''postgres://localhost/db'' ''/foobar'' empty_db
              = (Returned (Some (decode_error syntax_error create_error)), note_call Close ?w2)"
    using A by (rule conjunct1)
  have a4: "fst (Driver_Version pg (snd (migrate_Up pg ''postgres://localhost/db'' ''/foobar'' empty_db)))
              = fst (Driver_Version pg ?w1)"
    using A by blast
  have b1: "migrate_Up pg_begin_fails ''postgres://localhost/db'' ''/foobar'' empty_db
              = (Returned (Some bad_connection),
                 note_call Close (?w0\<lparr>calls := [QueryRow version_query, Begin]\<rparr>))"
    using B by (rule conjunct1)
  show ?thesis
    unfolding a4 v
    unfolding a1 b1
    using s s' by (simp add: note_call_def empty_db_def)
qed

text \<open>
  C3, the code at the failing input. From version 0 \<^verbatim>\<open>Up\<close> applies the first file; the
  connection then breaks while the script of the second file runs, so the second
  record fails with an error that is no \<^verbatim>\<open>*pq.Error\<close>. \<^verbatim>\<open>d.Migrate\<close> panics at line 81 of
  \<^verbatim>\<open>postgres.go\<close>, and \<^verbatim>\<open>Up\<close> panics with it after its deferred \<^verbatim>\<open>Close\<close>: the first
  failing record's error is not returned. The first file stays committed (version 1).
  The same holds when the first record of the run is the one that fails so.
\<close>

theorem Up_panics_on_non_pq_failure:
  "tx_Exec pg_bad_conn_second (Content file2_up) [] \<lparr>versions = [2, 1], tables = [''yolo'']\<rparr>
     = Inl bad_connection
   \<and> migrate_Up pg_bad_conn_second ''postgres://localhost/db'' ''/foobar'' empty_db =
       (Panicked InterfaceConversion,
        \<lparr>committed = \<lparr>versions = [1], tables = [''yolo'']\<rparr>,
         calls = [QueryRow version_query,
                  Begin, Exec insert_query [1], Exec create_yolo [], Commit,
                  Begin, Exec insert_query [2], Exec create_error [],
                  Close]\<rparr>)
   \<and> migrate_Up pg_bad_conn ''postgres://localhost/db'' ''/foobar'' empty_db =
       (Panicked InterfaceConversion,
        \<lparr>committed = \<lparr>versions = [], tables = []\<rparr>,
         calls = [QueryRow version_query,
                  Begin, Exec insert_query [1], Exec create_yolo [],
                  Close]\<rparr>)"
proof -
  let ?url = "''postgres://localhost/db''"
  let ?w0 = "empty_db\<lparr>calls := [QueryRow version_query]\<rparr>"
  have s: "fst (ToLastFrom test_files 0) = [file1_up, file2_up]"
    by (simp add: ToLastFrom_def up_files_def test_files_def List.map_filter_simps sort_key_def
        file1_up_def file2_up_def)
  have e: "tx_Exec pg_bad_conn_second (Content file2_up) [] \<lparr>versions = [2, 1], tables = [''yolo'']\<rparr>
             = Inl bad_connection"
    by (simp add: pg_bad_conn_second_def pg_fixture)
  have i2: "initDriverAndReadMigrationFilesAndGetVersion pg_bad_conn_second ?url ''/foobar'' empty_db
             = ((Some PostgresDriver, Some test_files, 0, None), ?w0)"
    by (simp add: initDriverAndReadMigrationFilesAndGetVersion_def Driver_Version_def note_call_def
        pg_bad_conn_second_def pg_def pg_QueryRow_def empty_db_def)
  have i1: "initDriverAndReadMigrationFilesAndGetVersion pg_bad_conn ?url ''/foobar'' empty_db
             = ((Some PostgresDriver, Some test_files, 0, None), ?w0)"
    by (simp add: initDriverAndReadMigrationFilesAndGetVersion_def Driver_Version_def note_call_def
        pg_bad_conn_def pg_def pg_QueryRow_def empty_db_def)
  have r2: "migrate_files pg_bad_conn_second [file1_up, file2_up] ?w0 =
       (Panicked InterfaceConversion,
        \<lparr>committed = \<lparr>versions = [1], tables = [''yolo'']\<rparr>,
         calls = [QueryRow version_query,
                  Begin, Exec insert_query [1], Exec create_yolo [], Commit,
                  Begin, Exec insert_query [2], Exec create_error []]\<rparr>)"
    by (simp add: Driver_Migrate_def note_call_def pg_bad_conn_second_def bad_connection_def
        pg_fixture)
  have r1: "migrate_files pg_bad_conn [file1_up, file2_up] ?w0 =
       (Panicked InterfaceConversion,
        \<lparr>committed = \<lparr>versions = [], tables = []\<rparr>,
         calls = [QueryRow version_query,
                  Begin, Exec insert_query [1], Exec create_yolo []]\<rparr>)"
    by (simp add: Driver_Migrate_def note_call_def pg_bad_conn_def bad_connection_def pg_fixture)
  have u2: "migrate_Up pg_bad_conn_second ?url ''/foobar'' empty_db =
       (Panicked InterfaceConversion,
        \<lparr>committed = \<lparr>versions = [1], tables = [''yolo'']\<rparr>,
         calls = [QueryRow version_query,
                  Begin, Exec insert_query [1], Exec create_yolo [], Commit,
                  Begin, Exec insert_query [2], Exec create_error [],
                  Close]\<rparr>)"
    unfolding init_succeeds_Up [OF i2] s deferred_Close_def r2
    by (simp add: Driver_Close_def note_call_def)
  have u1: "migrate_Up pg_bad_conn ?url ''/foobar'' empty_db =
       (Panicked InterfaceConversion,
        \<lparr>committed = \<lparr>versions = [], tables = []\<rparr>,
         calls = [QueryRow version_query,
                  Begin, Exec insert_query [1], Exec create_yolo [],
                  Close]\<rparr>)"
    unfolding init_succeeds_Up [OF i1] s deferred_Close_def r1
    by (simp add: Driver_Close_def note_call_def)
  from e u1 u2 show ?thesis
    by simp
qed

text \<open>
  With no migration applied (version 0) and Down files of positive versions, the
  sequencer as the spec describes it has nothing to roll back.
\<close>

lemma From_nothing_to_roll_back:
  assumes "list_all (\<lambda>f. 0 < Version f) (down_files mfs)"
  shows "From mfs 0 (- 1) = ([], None)"
proof -
  have "filter (\<lambda>f. Version f \<le> 0) (down_files mfs) = []"
    using assms by (auto simp add: list_all_iff filter_empty_conv)
  then show ?thesis
    by (simp add: From_def ToFirstFrom_def)
qed

lemma init_succeeds_Migrate:
  assumes "initDriverAndReadMigrationFilesAndGetVersion env url migrationsPath w
             = ((Some d, Some mfs, version, None), w0)"
    and "From mfs version relativeN = (fs, None)"
  shows "migrate_Migrate env url migrationsPath relativeN w =
           (if fs \<noteq> [] \<and> relativeN \<noteq> 0 then deferred_Close env (migrate_files env fs w0)
            else (Returned None, note_call Close w0))"
  by (simp add: migrate_Migrate_def assms deferred_Close_def Driver_Close_def)

text \<open>
  C7, as amended. \<^verbatim>\<open>Redo\<close> is \<^verbatim>\<open>Migrate\<close> with \<open>-1\<close> and then, from the world that call
  left, \<^verbatim>\<open>Migrate\<close> with \<open>+1\<close>, with the same URL and path. When the first call returns
  an error (or panics), \<^verbatim>\<open>Redo\<close> returns that error and leaves the world the first call
  left: the second call is never made. When the sequencer finds no file to roll back
  (\<^verbatim>\<open>files.From\<close> returns an empty list and no error, as it does when no migration has
  been applied), the first call calls \<^verbatim>\<open>Driver.Migrate\<close> for no file and returns nil;
  \<^verbatim>\<open>Redo\<close> then goes on to the second call.
\<close>

theorem Redo_is_rollback_then_reapply:
  "(migrate_Migrate env url migrationsPath (- 1) w = (Returned None, w1) \<longrightarrow>
      migrate_Redo env url migrationsPath w = migrate_Migrate env url migrationsPath 1 w1)
 \<and> (migrate_Migrate env url migrationsPath (- 1) w = (Returned (Some err), w1) \<longrightarrow>
      migrate_Redo env url migrationsPath w = (Returned (Some err), w1))
 \<and> (migrate_Migrate env url migrationsPath (- 1) w = (Panicked p, w1) \<longrightarrow>
      migrate_Redo env url migrationsPath w = (Panicked p, w1))
 \<and> (initDriverAndReadMigrationFilesAndGetVersion env url migrationsPath w
        = ((Some d, Some mfs, version, None), w0)
     \<and> From mfs version (- 1) = ([], None) \<longrightarrow>
      migrate_Migrate env url migrationsPath (- 1) w = (Returned None, note_call Close w0)
      \<and> migrate_Redo env url migrationsPath w
          = migrate_Migrate env url migrationsPath 1 (note_call Close w0))"
proof (intro conjI impI)
  assume "migrate_Migrate env url migrationsPath (- 1) w = (Returned None, w1)"
  then show "migrate_Redo env url migrationsPath w = migrate_Migrate env url migrationsPath 1 w1"
    by (simp add: migrate_Redo_def)
next
  assume "migrate_Migrate env url migrationsPath (- 1) w = (Returned (Some err), w1)"
  then show "migrate_Redo env url migrationsPath w = (Returned (Some err), w1)"
    by (simp add: migrate_Redo_def)
next
  assume "migrate_Migrate env url migrationsPath (- 1) w = (Panicked p, w1)"
  then show "migrate_Redo env url migrationsPath w = (Panicked p, w1)"
    by (simp add: migrate_Redo_def)
next
  assume a: "initDriverAndReadMigrationFilesAndGetVersion env url migrationsPath w
        = ((Some d, Some mfs, version, None), w0)
     \<and> From mfs version (- 1) = ([], None)"
  then show m: "migrate_Migrate env url migrationsPath (- 1) w = (Returned None, note_call Close w0)"
    by (simp add: init_succeeds_Migrate [where fs = "[]"])
  then show "migrate_Redo env url migrationsPath w
          = migrate_Migrate env url migrationsPath 1 (note_call Close w0)"
    by (simp add: migrate_Redo_def)
qed

text \<open>
  C7, witness. On the test database at version 1 with a database that refuses every
  transaction, the rollback step fails and \<^verbatim>\<open>Redo\<close> stops there: one \<^verbatim>\<open>Begin\<close>, no
  second initialisation. On the healthy test database at version 1, \<^verbatim>\<open>Redo\<close> rolls the
  first migration back and applies it again. On the empty test database the sequencer
  finds nothing to roll back and the rollback step returns nil.
\<close>

theorem Redo_is_rollback_then_reapply_witness:
  "migrate_Migrate pg_begin_fails ''postgres://localhost/db'' ''/foobar'' (- 1) db_at_1 =
     (Returned (Some bad_connection),
      \<lparr>committed = \<lparr>versions = [1], tables = [''yolo'']\<rparr>,
       calls = [QueryRow version_query, Begin, Close]\<rparr>)
   \<and> migrate_Redo pg_begin_fails ''postgres://localhost/db'' ''/foobar'' db_at_1 =
     (Returned (Some bad_connection),
      \<lparr>committed = \<lparr>versions = [1], tables = [''yolo'']\<rparr>,
       calls = [QueryRow version_query, Begin, Close]\<rparr>)
   \<and> migrate_Migrate pg ''postgres://localhost/db'' ''/foobar'' (- 1) db_at_1 =
     (Returned None,
      \<lparr>committed = \<lparr>versions = [], tables = []\<rparr>,
       calls = [QueryRow version_query, Begin, Exec delete_query [1], Exec drop_yolo [], Commit,
                Close]\<rparr>)
   \<and> migrate_Redo pg ''postgres://localhost/db'' ''/foobar'' db_at_1 =
     (Returned None,
      \<lparr>committed = \<lparr>versions = [1], tables = [''yolo'']\<rparr>,
       calls = [QueryRow version_query, Begin, Exec delete_query [1], Exec drop_yolo [], Commit,
                Close,
                QueryRow version_query, Begin, Exec insert_query [1], Exec create_yolo [], Commit,
                Close]\<rparr>)
   \<and> From test_files 0 (- 1) = ([], None)
   \<and> initDriverAndReadMigrationFilesAndGetVersion pg ''postgres://localhost/db'' ''/foobar'' empty_db
       = ((Some PostgresDriver, Some test_files, 0, None), empty_db\<lparr>calls := [QueryRow version_query]\<rparr>)
   \<and> migrate_Migrate pg ''postgres://localhost/db'' ''/foobar'' (- 1) empty_db =
       (Returned None,
        \<lparr>committed = \<lparr>versions = [], tables = []\<rparr>, calls = [QueryRow version_query, Close]\<rparr>)"
proof -
  let ?url = "''postgres://localhost/db''"
  let ?w0 = "db_at_1\<lparr>calls := [QueryRow version_query]\<rparr>"
  let ?wf = "\<lparr>committed = \<lparr>versions = [1], tables = [''yolo'']\<rparr>,
              calls = [QueryRow version_query, Begin, Close]\<rparr>"
  let ?w1 = "\<lparr>committed = \<lparr>versions = [], tables = []\<rparr>,
              calls = [QueryRow version_query, Begin, Exec delete_query [1], Exec drop_yolo [],
                       Commit, Close]\<rparr>"
  let ?w2 = "\<lparr>committed = \<lparr>versions = [1], tables = [''yolo'']\<rparr>,
       calls = [QueryRow version_query, Begin, Exec delete_query [1], Exec drop_yolo [], Commit,
                Close,
                QueryRow version_query, Begin, Exec insert_query [1], Exec create_yolo [], Commit,
                Close]\<rparr>"
  have pos: "list_all (\<lambda>f. 0 < Version f) (down_files test_files)"
    by (simp add: down_files_def test_files_def List.map_filter_simps sort_key_def file1_down_def)
  have dn: "From test_files 1 (- 1) = ([file1_down], None)"
    by (simp add: From_def ToFirstFrom_def down_files_def test_files_def List.map_filter_simps
        sort_key_def file1_down_def)
  have up: "From test_files 0 1 = ([file1_up], None)"
    by (simp add: From_def ToLastFrom_def up_files_def test_files_def List.map_filter_simps
        sort_key_def file1_up_def file2_up_def)
  have i: "initDriverAndReadMigrationFilesAndGetVersion pg_begin_fails ?url ''/foobar'' db_at_1
             = ((Some PostgresDriver, Some test_files, 1, None), ?w0)"
    by (simp add: initDriverAndReadMigrationFilesAndGetVersion_def Driver_Version_def note_call_def
        pg_begin_fails_def pg_def pg_QueryRow_def db_at_1_def)
  have f: "migrate_files pg_begin_fails [file1_down] ?w0
             = (Returned (Some bad_connection), ?w0\<lparr>calls := [QueryRow version_query, Begin]\<rparr>)"
    by (simp add: Driver_Migrate_def note_call_def pg_begin_fails_def pg_fixture)
  have m: "migrate_Migrate pg_begin_fails ?url ''/foobar'' (- 1) db_at_1 = (Returned (Some bad_connection), ?wf)"
    unfolding init_succeeds_Migrate [OF i dn] deferred_Close_def f
    by (simp add: Driver_Close_def note_call_def db_at_1_def)
  have j: "initDriverAndReadMigrationFilesAndGetVersion pg ?url ''/foobar'' db_at_1
             = ((Some PostgresDriver, Some test_files, 1, None), ?w0)"
    by (simp add: initDriverAndReadMigrationFilesAndGetVersion_def Driver_Version_def note_call_def
        pg_def pg_QueryRow_def db_at_1_def)
  have g: "migrate_files pg [file1_down] ?w0
             = (Returned None,
                \<lparr>committed = \<lparr>versions = [], tables = []\<rparr>,
                 calls = [QueryRow version_query, Begin, Exec delete_query [1], Exec drop_yolo [],
                          Commit]\<rparr>)"
    by (simp add: Driver_Migrate_def note_call_def pg_fixture)
  have m1: "migrate_Migrate pg ?url ''/foobar'' (- 1) db_at_1 = (Returned None, ?w1)"
    unfolding init_succeeds_Migrate [OF j dn] deferred_Close_def g
    by (simp add: Driver_Close_def note_call_def)
  have k: "initDriverAndReadMigrationFilesAndGetVersion pg ?url ''/foobar'' ?w1
             = ((Some PostgresDriver, Some test_files, 0, None),
                ?w1\<lparr>calls := calls ?w1 @ [QueryRow version_query]\<rparr>)"
    by (simp add: initDriverAndReadMigrationFilesAndGetVersion_def Driver_Version_def note_call_def
        pg_def pg_QueryRow_def)
  have h: "migrate_files pg [file1_up] (?w1\<lparr>calls := calls ?w1 @ [QueryRow version_query]\<rparr>)
             = (Returned None,
                \<lparr>committed = \<lparr>versions = [1], tables = [''yolo'']\<rparr>,
                 calls = [QueryRow version_query, Begin, Exec delete_query [1], Exec drop_yolo [],
                          Commit, Close,
                          QueryRow version_query, Begin, Exec insert_query [1], Exec create_yolo [],
                          Commit]\<rparr>)"
    by (simp add: Driver_Migrate_def note_call_def pg_fixture)
  have m2: "migrate_Migrate pg ?url ''/foobar'' 1 ?w1 = (Returned None, ?w2)"
    unfolding init_succeeds_Migrate [OF k up] deferred_Close_def h
    by (simp add: Driver_Close_def note_call_def)
  note T1 = Redo_is_rollback_then_reapply [of pg_begin_fails ?url "''/foobar''" db_at_1]
  note T2 = Redo_is_rollback_then_reapply [of pg ?url "''/foobar''" db_at_1 ?w1]
  have r1: "migrate_Redo pg_begin_fails ?url ''/foobar'' db_at_1 = (Returned (Some bad_connection), ?wf)"
    using T1 m by blast
  have r2: "migrate_Redo pg ?url ''/foobar'' db_at_1 = migrate_Migrate pg ?url ''/foobar'' 1 ?w1"
    using T2 m1 by blast
  have e: "initDriverAndReadMigrationFilesAndGetVersion pg ?url ''/foobar'' empty_db
             = ((Some PostgresDriver, Some test_files, 0, None),
                empty_db\<lparr>calls := [QueryRow version_query]\<rparr>)"
    by (simp add: initDriverAndReadMigrationFilesAndGetVersion_def Driver_Version_def note_call_def
        pg_def pg_QueryRow_def empty_db_def)
  have dn0: "From test_files 0 (- 1) = ([], None)"
    using pos by (rule From_nothing_to_roll_back)
  note T3 = Redo_is_rollback_then_reapply [where env = pg and url = ?url
      and migrationsPath = "''/foobar''" and w = empty_db and d = PostgresDriver
      and mfs = test_files and version = 0
      and ?w0.0 = "empty_db\<lparr>calls := [QueryRow version_query]\<rparr>"]
  have r3: "migrate_Migrate pg ?url ''/foobar'' (- 1) empty_db
              = (Returned None, note_call Close (empty_db\<lparr>calls := [QueryRow version_query]\<rparr>))"
    using T3 e dn0 by blast
  show ?thesis
    unfolding r1 r2 r3 m m1 m2 using dn0 e by (simp add: note_call_def empty_db_def)
qed

text \<open>
  C7, counterexample to the claim's last part (with no migration applied, \<^verbatim>\<open>Redo\<close>
  fails at the rollback step and does not attempt the reapply). On the empty test
  database the rollback step has nothing to roll back and returns nil, and \<^verbatim>\<open>Redo\<close>
  returns nil after the reapply step has applied the first migration.
\<close>

theorem Redo_on_fresh_database_counterexample:
  "fst (Driver_Version pg empty_db) = (0, None)
   \<and> migrate_Migrate pg ''postgres://localhost/db'' ''/foobar'' (- 1) empty_db =
       (Returned None,
        \<lparr>committed = \<lparr>versions = [], tables = []\<rparr>,
         calls = [QueryRow version_query, Close]\<rparr>)
   \<and> migrate_Redo pg ''postgres://localhost/db'' ''/foobar'' empty_db =
       (Returned None,
        \<lparr>committed = \<lparr>versions = [1], tables = [''yolo'']\<rparr>,
         calls = [QueryRow version_query, Close,
                  QueryRow version_query, Begin, Exec insert_query [1], Exec create_yolo [], Commit,
                  Close]\<rparr>)"
proof -
  let ?url = "''postgres://localhost/db''"
  let ?w0 = "empty_db\<lparr>calls := [QueryRow version_query]\<rparr>"
  let ?w1 = "\<lparr>committed = \<lparr>versions = [], tables = []\<rparr>,
              calls = [QueryRow version_query, Close]\<rparr>"
  have v: "fst (Driver_Version pg empty_db) = (0, None)"
    by (simp add: Driver_Version_result pg_def pg_QueryRow_def empty_db_def)
  have dn: "From test_files 0 (- 1) = ([], None)"
    by (simp add: From_def ToFirstFrom_def down_files_def test_files_def List.map_filter_simps
        sort_key_def file1_down_def)
  have up: "From test_files 0 1 = ([file1_up], None)"
    by (simp add: From_def ToLastFrom_def up_files_def test_files_def List.map_filter_simps
        sort_key_def file1_up_def file2_up_def)
  have i: "initDriverAndReadMigrationFilesAndGetVersion pg ?url ''/foobar'' empty_db
             = ((Some PostgresDriver, Some test_files, 0, None), ?w0)"
    by (simp add: initDriverAndReadMigrationFilesAndGetVersion_def Driver_Version_def note_call_def
        pg_def pg_QueryRow_def empty_db_def)
  have m1: "migrate_Migrate pg ?url ''/foobar'' (- 1) empty_db = (Returned None, ?w1)"
    unfolding init_succeeds_Migrate [OF i dn]
    by (simp add: note_call_def empty_db_def)
  have k: "initDriverAndReadMigrationFilesAndGetVersion pg ?url ''/foobar'' ?w1
             = ((Some PostgresDriver, Some test_files, 0, None),
                ?w1\<lparr>calls := calls ?w1 @ [QueryRow version_query]\<rparr>)"
    by (simp add: initDriverAndReadMigrationFilesAndGetVersion_def Driver_Version_def note_call_def
        pg_def pg_QueryRow_def)
  have h: "migrate_files pg [file1_up] (?w1\<lparr>calls := calls ?w1 @ [QueryRow version_query]\<rparr>)
             = (Returned None,
                \<lparr>committed = \<lparr>versions = [1], tables = [''yolo'']\<rparr>,
                 calls = [QueryRow version_query, Close,
                          QueryRow version_query, Begin, Exec insert_query [1], Exec create_yolo [],
                          Commit]\<rparr>)"
    by (simp add: Driver_Migrate_def note_call_def pg_fixture)
  have m2: "migrate_Migrate pg ?url ''/foobar'' 1 ?w1 =
       (Returned None,
        \<lparr>committed = \<lparr>versions = [1], tables = [''yolo'']\<rparr>,
         calls = [QueryRow version_query, Close,
                  QueryRow version_query, Begin, Exec insert_query [1], Exec create_yolo [], Commit,
                  Close]\<rparr>)"
    unfolding init_succeeds_Migrate [OF k up] deferred_Close_def h
    by (simp add: Driver_Close_def note_call_def)
  have r: "migrate_Redo pg ?url ''/foobar'' empty_db = migrate_Migrate pg ?url ''/foobar'' 1 ?w1"
    by (simp add: migrate_Redo_def m1)
  show ?thesis
    unfolding r m1 m2 using v by simp
qed

end
